theory Spec2Isabelle
  imports Main "HOL-Library.AList" "HOL-Library.Sublist"
begin

section \<open>The client proxier (ray/util/client/server/proxier.py)\<close>

text \<open>
  A shallow embedding of \<^verbatim>\<open>proxier.py\<close>. Mutable objects are passed explicitly: the
  \<^verbatim>\<open>ProxyManager\<close> (record map and free-port list) and the gRPC \<^verbatim>\<open>context\<close> (invocation
  metadata and status code) are records that each operation returns updated. Exceptions
  are values of the type \<open>exn\<close> on the left of a sum. A call that does not return (a
  blocking read of an unresolved future, a poll loop that never breaks) has the value
  \<open>None\<close> of an outer \<open>option\<close>. Everything the module obtains from outside (the probe
  bind, the launched child and what polling it shows, channel readiness, pickle, the
  interpreter version) is a field of the record \<open>env\<close>; the launcher is taken to return
  a process. Time passes only in the sleeps of the start-up loop, which index what the
  child shows. Logging is left out, and so are the memoised session directory, which is
  only passed on to the launcher, \<^verbatim>\<open>LogstreamServicerProxy\<close> and \<^verbatim>\<open>serve_proxier\<close>.
\<close>

subsection \<open>Constants, status codes, exceptions\<close>

definition MIN_SPECIFIC_SERVER_PORT :: nat where
  "MIN_SPECIFIC_SERVER_PORT = 23000"

definition MAX_SPECIFIC_SERVER_PORT :: nat where
  "MAX_SPECIFIC_SERVER_PORT = 24000"

text \<open>The members of \<^verbatim>\<open>grpc.StatusCode\<close>.\<close>

datatype StatusCode =
    OK | CANCELLED | UNKNOWN | INVALID_ARGUMENT | DEADLINE_EXCEEDED | NOT_FOUND
  | ALREADY_EXISTS | PERMISSION_DENIED | RESOURCE_EXHAUSTED | FAILED_PRECONDITION
  | ABORTED | OUT_OF_RANGE | UNIMPLEMENTED | INTERNAL | UNAVAILABLE | DATA_LOSS
  | UNAUTHENTICATED

text \<open>
  The exceptions the module can meet. \<open>TimeoutError\<close> is the builtin class that the
  clause \<^verbatim>\<open>except TimeoutError\<close> names; \<open>FuturesTimeoutError\<close> is
  \<^verbatim>\<open>concurrent.futures.TimeoutError\<close>, a separate class before Python 3.11 and an alias
  of the builtin from 3.11 on. \<open>RpcError\<close> is \<^verbatim>\<open>grpc.RpcError\<close>.
\<close>

datatype exn =
    RuntimeError string
  | AssertionError
  | StopIteration
  | IndexError
  | TimeoutError
  | FuturesTimeoutError
  | UnpicklingError
  | RpcError

subsection \<open>The gRPC servicer context\<close>

record ServicerContext =
  invocation_metadata :: "(string \<times> string) list"
  code :: "StatusCode option"

definition set_code :: "StatusCode \<Rightarrow> ServicerContext \<Rightarrow> ServicerContext" where
  "set_code c ctx = ctx\<lparr>code := Some c\<rparr>"

text \<open>
  \<^verbatim>\<open>metadata = {k: v for k, v in context.invocation_metadata()}\<close>: a later pair
  overrides an earlier one with the same key. \<^verbatim>\<open>metadata.get("client_id") or ""\<close>.
\<close>

definition get_client_id_from_context :: "ServicerContext \<Rightarrow> string \<times> ServicerContext" where
  "get_client_id_from_context ctx =
     (let client_id = (case map_of (rev (invocation_metadata ctx)) ''client_id'' of
                         None \<Rightarrow> '''' | Some v \<Rightarrow> v)
      in if client_id = '''' then (client_id, set_code INVALID_ARGUMENT ctx)
         else (client_id, ctx))"

subsection \<open>The environment\<close>

text \<open>
  What one look at a child process shows: \<^verbatim>\<open>proc.process.poll()\<close> (\<open>None\<close> while it
  runs) and \<^verbatim>\<open>psutil_proc.cmdline()\<close>.
\<close>

record child_obs =
  poll :: "int option"
  cmdline :: "string list"

text \<open>
  \<open>python_minor\<close>: the interpreter is Python 3.\<open>python_minor\<close>.
  \<open>win32\<close>: \<^verbatim>\<open>sys.platform == "win32"\<close>.
  \<open>bind_ok p\<close>: the probe \<^verbatim>\<open>s.bind(("", p))\<close> raises no \<^verbatim>\<open>OSError\<close>.
  \<open>start_ray_client_server p cfg\<close>: the pid of the child launched for port \<open>p\<close>.
  \<open>observe pid i\<close>: what the child shows after \<open>i\<close> sleeps of the start-up loop.
  \<open>channel_ready ch\<close>: \<^verbatim>\<open>grpc.channel_ready_future(ch).result(timeout=10)\<close> returns.
  \<open>loads\<close>, \<open>dumps\<close>: pickle; \<open>JobConfig\<close>: the value of \<^verbatim>\<open>JobConfig()\<close>.
\<close>

datatype Channel = insecure_channel nat

record 'jc env =
  python_minor :: nat
  win32 :: bool
  bind_ok :: "nat \<Rightarrow> bool"
  start_ray_client_server :: "nat \<Rightarrow> 'jc \<Rightarrow> nat"
  observe :: "nat \<Rightarrow> nat \<Rightarrow> child_obs"
  channel_ready :: "Channel \<Rightarrow> bool"
  loads :: "string \<Rightarrow> exn + 'jc"
  dumps :: "'jc \<Rightarrow> string"
  JobConfig :: "'jc"

subsection \<open>Futures and backend records\<close>

text \<open>
  A \<^verbatim>\<open>concurrent.futures.Future\<close> that is only ever completed by \<^verbatim>\<open>set_result\<close>.
  \<open>Future_result\<close> is \<^verbatim>\<open>Future.result(timeout)\<close>, the timeout in milliseconds:
  without a timeout it blocks on an unresolved future, with one it raises
  \<^verbatim>\<open>concurrent.futures.TimeoutError\<close>.
\<close>

datatype 'a future = Unresolved | Resolved 'a

definition futures_TimeoutError :: "'jc env \<Rightarrow> exn" where
  "futures_TimeoutError env = (if python_minor env < 11 then FuturesTimeoutError else TimeoutError)"

definition Future_result :: "'jc env \<Rightarrow> 'a future \<Rightarrow> nat option \<Rightarrow> (exn + 'a) option" where
  "Future_result env fut timeout =
     (case fut of
        Resolved v \<Rightarrow> Some (Inr v)
      | Unresolved \<Rightarrow>
          (case timeout of None \<Rightarrow> None | Some t \<Rightarrow> Some (Inl (futures_TimeoutError env))))"

record SpecificServer =
  port :: nat
  process_handle_future :: "nat future"
  channel :: Channel

definition wait_ready :: "'jc env \<Rightarrow> SpecificServer \<Rightarrow> nat option \<Rightarrow> (exn + unit) option" where
  "wait_ready env server timeout =
     map_option (map_sum id (\<lambda>_. ())) (Future_result env (process_handle_future server) timeout)"

definition process_handle :: "'jc env \<Rightarrow> SpecificServer \<Rightarrow> (exn + nat) option" where
  "process_handle env server = Future_result env (process_handle_future server) None"

subsection \<open>ProxyManager\<close>

text \<open>
  \<open>servers\<close> is a Python dict: an association list with distinct keys in insertion
  order; \<^verbatim>\<open>d[k] = v\<close> is \<open>AList.update\<close>, \<^verbatim>\<open>del d[k]\<close> is \<open>AList.delete\<close>.
\<close>

record ProxyManager =
  servers :: "(string \<times> SpecificServer) list"
  free_ports :: "nat list"

definition ProxyManager_init :: ProxyManager where
  "ProxyManager_init =
     \<lparr>servers = [], free_ports = [MIN_SPECIFIC_SERVER_PORT ..< MAX_SPECIFIC_SERVER_PORT]\<rparr>"

text \<open>
  The loop of \<^verbatim>\<open>_get_unused_port\<close>: \<open>n\<close> iterations are left; each pops the head, probes
  it, and appends it again when the probe fails. When the iterations are used up the
  function raises \<^verbatim>\<open>RuntimeError\<close>.
\<close>

fun probe_ports :: "(nat \<Rightarrow> bool) \<Rightarrow> nat \<Rightarrow> nat list \<Rightarrow> (exn + nat) \<times> nat list" where
  "probe_ports ok 0 fp =
     (Inl (RuntimeError ''Unable to succeed in selecting a random port.''), fp)"
| "probe_ports ok (Suc n) [] = (Inl IndexError, [])"
| "probe_ports ok (Suc n) (p # fp) =
     (if ok p then (Inr p, fp) else probe_ports ok n (fp @ [p]))"

definition get_unused_port :: "'jc env \<Rightarrow> ProxyManager \<Rightarrow> (exn + nat) \<times> ProxyManager" where
  "get_unused_port env m =
     (let num_ports = length (free_ports m);
          (r, fp) = probe_ports (bind_ok env) num_ports (free_ports m)
      in (r, m\<lparr>free_ports := fp\<rparr>))"

text \<open>
  The start-up loop of \<^verbatim>\<open>start_specific_server\<close>, entered when \<^verbatim>\<open>psutil_proc\<close> is not
  \<^verbatim>\<open>None\<close>. The result is the number of sleeps after which the loop breaks; a child that
  neither exits nor shows the expected command line keeps the loop running for ever.
  \<open>past_fence cmd\<close> is the test \<^verbatim>\<open>len(cmd) > 3 and cmd[2] == "ray.util.client.server"\<close>.
\<close>

definition past_fence :: "string list \<Rightarrow> bool" where
  "past_fence cmd \<longleftrightarrow> length cmd > 3 \<and> cmd ! 2 = ''ray.util.client.server''"

partial_function (option) wait_for_server :: "(nat \<Rightarrow> child_obs) \<Rightarrow> nat \<Rightarrow> nat option" where
  "wait_for_server child i =
     (if poll (child i) \<noteq> None then Some i
      else if past_fence (cmdline (child i)) then Some i
      else wait_for_server child (Suc i))"

text \<open>The block of \<^verbatim>\<open>start_specific_server\<close> that runs under \<^verbatim>\<open>server_lock\<close>.\<close>

definition start_specific_server_locked ::
  "'jc env \<Rightarrow> ProxyManager \<Rightarrow> string \<Rightarrow> (exn + nat) \<times> ProxyManager" where
  "start_specific_server_locked env m client_id =
     (case get_unused_port env m of
        (Inl e, m') \<Rightarrow> (Inl e, m')
      | (Inr p, m') \<Rightarrow>
          (Inr p,
           m'\<lparr>servers := AList.update client_id
                 \<lparr>port = p, process_handle_future = Unresolved, channel = insecure_channel p\<rparr>
                 (servers m')\<rparr>))"

text \<open>
  The whole of \<^verbatim>\<open>start_specific_server\<close>. \<^verbatim>\<open>handle_ready.set_result(proc)\<close> resolves the
  future of the record installed under \<open>client_id\<close> by the locked block. The result is
  \<^verbatim>\<open>proc.process.poll() is None\<close>, read when the loop has ended.
\<close>

definition start_specific_server ::
  "'jc env \<Rightarrow> ProxyManager \<Rightarrow> string \<Rightarrow> 'jc \<Rightarrow> ((exn + bool) \<times> ProxyManager) option" where
  "start_specific_server env m client_id job_config =
     (case start_specific_server_locked env m client_id of
        (Inl e, m1) \<Rightarrow> Some (Inl e, m1)
      | (Inr p, m1) \<Rightarrow>
          (let pid = start_ray_client_server env p job_config;
               child = observe env pid
           in case (if win32 env then Some 0 else wait_for_server child 0) of
                None \<Rightarrow> None
              | Some i \<Rightarrow>
                  Some (Inr (poll (child i) = None),
                        m1\<lparr>servers := AList.map_entry client_id
                              (\<lambda>s. s\<lparr>process_handle_future := Resolved pid\<rparr>) (servers m1)\<rparr>)))"

definition get_server_for_client :: "ProxyManager \<Rightarrow> string \<Rightarrow> SpecificServer option" where
  "get_server_for_client m client_id = map_of (servers m) client_id"

definition get_channel :: "'jc env \<Rightarrow> ProxyManager \<Rightarrow> string \<Rightarrow> (exn + Channel option) option" where
  "get_channel env m client_id =
     (case get_server_for_client m client_id of
        None \<Rightarrow> Some (Inr None)
      | Some server \<Rightarrow>
          (case wait_ready env server None of
             None \<Rightarrow> None
           | Some (Inl e) \<Rightarrow> Some (Inl e)
           | Some (Inr _) \<Rightarrow>
               Some (Inr (if channel_ready env (channel server) then Some (channel server)
                          else None))))"

text \<open>
  One sweep of \<^verbatim>\<open>_check_processes\<close>: the body of its \<^verbatim>\<open>while True\<close> loop, run under
  \<^verbatim>\<open>server_lock\<close> over the snapshot \<^verbatim>\<open>list(self.servers.items())\<close>. \<open>poll_now pid\<close> is
  what \<^verbatim>\<open>process.poll()\<close> returns for that child during the sweep.
\<close>

fun check_processes_loop ::
  "'jc env \<Rightarrow> (nat \<Rightarrow> int option) \<Rightarrow> (string \<times> SpecificServer) list \<Rightarrow> ProxyManager
     \<Rightarrow> (exn + ProxyManager) option" where
  "check_processes_loop env poll_now [] m = Some (Inr m)"
| "check_processes_loop env poll_now ((client_id, specific_server) # items) m =
     (case process_handle env specific_server of
        None \<Rightarrow> None
      | Some (Inl e) \<Rightarrow> Some (Inl e)
      | Some (Inr proc) \<Rightarrow>
          (let poll_result = poll_now proc
           in if poll_result \<noteq> None
              then check_processes_loop env poll_now items
                     (m\<lparr>servers := AList.delete client_id (servers m),
                        free_ports := free_ports m @ [port specific_server]\<rparr>)
              else check_processes_loop env poll_now items m))"

definition check_processes_sweep ::
  "'jc env \<Rightarrow> (nat \<Rightarrow> int option) \<Rightarrow> ProxyManager \<Rightarrow> (exn + ProxyManager) option" where
  "check_processes_sweep env poll_now m = check_processes_loop env poll_now (servers m) m"

text \<open>
  \<^verbatim>\<open>_cleanup\<close>, the \<^verbatim>\<open>atexit\<close> hook. The list \<open>killed\<close> collects the pids that
  \<^verbatim>\<open>process.kill()\<close> was called on, in order; the first component of the result is the
  exception that leaves the hook, if any. The timeout 0.1 s is 100 ms.
\<close>

fun cleanup_loop ::
  "'jc env \<Rightarrow> SpecificServer list \<Rightarrow> nat list \<Rightarrow> (exn option \<times> nat list) option" where
  "cleanup_loop env [] killed = Some (None, killed)"
| "cleanup_loop env (server # rest) killed =
     (case wait_ready env server (Some 100) of
        None \<Rightarrow> None
      | Some (Inl e) \<Rightarrow>
          (if e = TimeoutError then cleanup_loop env rest killed else Some (Some e, killed))
      | Some (Inr _) \<Rightarrow>
          (case process_handle env server of
             None \<Rightarrow> None
           | Some (Inl e) \<Rightarrow>
               (if e = TimeoutError then cleanup_loop env rest killed else Some (Some e, killed))
           | Some (Inr proc) \<Rightarrow> cleanup_loop env rest (killed @ [proc])))"

definition cleanup :: "'jc env \<Rightarrow> ProxyManager \<Rightarrow> (exn option \<times> nat list) option" where
  "cleanup env m = cleanup_loop env (map snd (servers m)) []"

subsection \<open>RayletServicerProxy\<close>

text \<open>
  What a handler returns: \<^verbatim>\<open>None\<close>, the value of calling the stub method \<open>method\<close> of the
  stub built on a channel with a request and metadata, or a \<^verbatim>\<open>ClusterInfoResponse\<close>
  built locally with the given \<^verbatim>\<open>json\<close> field.
\<close>

datatype 'r reply =
    NoReply
  | StubCall Channel string 'r "(string \<times> string) list"
  | ClusterInfoResponse string

definition call_inner_function ::
  "'jc env \<Rightarrow> ProxyManager \<Rightarrow> 'r \<Rightarrow> ServicerContext \<Rightarrow> string
     \<Rightarrow> ((exn + 'r reply) \<times> ServicerContext) option" where
  "call_inner_function env m request ctx method =
     (let (client_id, ctx1) = get_client_id_from_context ctx
      in case get_channel env m client_id of
           None \<Rightarrow> None
         | Some (Inl e) \<Rightarrow> Some (Inl e, ctx1)
         | Some (Inr None) \<Rightarrow> Some (Inr NoReply, set_code NOT_FOUND ctx1)
         | Some (Inr (Some chan)) \<Rightarrow>
             Some (Inr (StubCall chan method request [(''client_id'', client_id)]), ctx1))"

definition Init where
  "Init env m request ctx = call_inner_function env m request ctx ''Init''"

definition PrepRuntimeEnv where
  "PrepRuntimeEnv env m request ctx = call_inner_function env m request ctx ''PrepRuntimeEnv''"

definition KVPut where
  "KVPut env m request ctx = call_inner_function env m request ctx ''KVPut''"

definition KVGet where
  "KVGet env m request ctx = call_inner_function env m request ctx ''KVGet''"

definition KVDel where
  "KVDel env m request ctx = call_inner_function env m request ctx ''KVGet''"

definition KVList where
  "KVList env m request ctx = call_inner_function env m request ctx ''KVList''"

definition KVExists where
  "KVExists env m request ctx = call_inner_function env m request ctx ''KVExists''"

text \<open>
  Modelled from the spec: the protobuf declarations of \<^verbatim>\<open>ray_client_pb2\<close> are not among the
  sources. A \<^verbatim>\<open>ClusterInfoRequest\<close> has a field \<^verbatim>\<open>type\<close> that is \<^verbatim>\<open>PING\<close> or another
  member of \<^verbatim>\<open>ClusterInfoType\<close>; its other fields are the extension of the record.
\<close>

datatype ClusterInfoType = PING | OTHER_INFO nat

record ClusterInfoRequest =
  type :: ClusterInfoType

text \<open>\<^verbatim>\<open>json.dumps({})\<close> is the two-character string \<^verbatim>\<open>{}\<close>.\<close>

definition ClusterInfo ::
  "'jc env \<Rightarrow> ProxyManager \<Rightarrow> 'z ClusterInfoRequest_scheme \<Rightarrow> ServicerContext
     \<Rightarrow> ((exn + 'z ClusterInfoRequest_scheme reply) \<times> ServicerContext) option" where
  "ClusterInfo env m request ctx =
     (if type request = PING then Some (Inr (ClusterInfoResponse ''{}''), ctx)
      else call_inner_function env m request ctx ''ClusterInfo'')"

definition Terminate where
  "Terminate env m req ctx = call_inner_function env m req ctx ''Terminate''"

definition GetObject where
  "GetObject env m request ctx = call_inner_function env m request ctx ''GetObject''"

definition PutObject where
  "PutObject env m request ctx = call_inner_function env m request ctx ''PutObject''"

definition WaitObject where
  "WaitObject env m request ctx = call_inner_function env m request ctx ''WaitObject''"

definition Schedule where
  "Schedule env m task ctx = call_inner_function env m task ctx ''Schedule''"

subsection \<open>The data stream\<close>

text \<open>
  A request iterator is the list of what successive \<^verbatim>\<open>next\<close> calls give: a message
  (\<open>Inr\<close>) or an exception raised by the transport (\<open>Inl\<close>); at the end of the list the
  iterator is exhausted. A \<^verbatim>\<open>Queue\<close> is the list of its items, oldest first, and the
  sentinel \<^verbatim>\<open>None\<close> is \<open>None\<close>.
\<close>

fun forward_streaming_requests :: "(exn + 'a) list \<Rightarrow> 'a option list \<Rightarrow> 'a option list" where
  "forward_streaming_requests [] output_queue = output_queue @ [None]"
| "forward_streaming_requests (Inr req # rest) output_queue =
     forward_streaming_requests rest (output_queue @ [Some req])"
| "forward_streaming_requests (Inl e # rest) output_queue = output_queue @ [None]"

text \<open>\<^verbatim>\<open>iter(queue.get, None)\<close>: the items taken from the queue up to the first sentinel.\<close>

definition iter_until_sentinel :: "'a option list \<Rightarrow> 'a list" where
  "iter_until_sentinel queue = map the (takeWhile (\<lambda>x. x \<noteq> None) queue)"

definition ray_client_server_env_prep :: "'jc \<Rightarrow> 'jc" where
  "ray_client_server_env_prep job_config = job_config"

text \<open>
  Modelled from the spec: the protobuf declarations of \<^verbatim>\<open>ray_client_pb2\<close> are not among the
  sources. An \<^verbatim>\<open>InitRequest\<close> carries the serialized \<^verbatim>\<open>job_config\<close> (bytes, possibly
  empty). A \<^verbatim>\<open>DataRequest\<close> has the oneof \<^verbatim>\<open>type\<close>, whose variant is \<^verbatim>\<open>init\<close>, another
  one, or none; its other fields are the extension of the record.
\<close>

record InitRequest =
  job_config :: string

datatype 'p oneof = init InitRequest | other 'p | unset

record 'p DataRequest =
  oneof_type :: "'p oneof"

text \<open>
  \<^verbatim>\<open>prepare_runtime_init_req\<close>. The result also holds the rest of the iterator, which the
  caller goes on reading. \<^verbatim>\<open>init_req.init.CopyFrom(modified_init_req)\<close> replaces the
  \<^verbatim>\<open>init\<close> submessage of \<open>init_req\<close> by \<open>modified_init_req\<close> and leaves the rest of
  \<open>init_req\<close> as it is.
\<close>

definition prepare_runtime_init_req ::
  "'jc env \<Rightarrow> (exn + ('p, 'z) DataRequest_scheme) list
     \<Rightarrow> exn + (('p, 'z) DataRequest_scheme \<times> 'jc) \<times> (exn + ('p, 'z) DataRequest_scheme) list" where
  "prepare_runtime_init_req env iterator =
     (case iterator of
        [] \<Rightarrow> Inl StopIteration
      | Inl e # rest \<Rightarrow> Inl e
      | Inr init_req # rest \<Rightarrow>
          (case oneof_type init_req of
             init req \<Rightarrow>
               (case (if job_config req \<noteq> [] then loads env (job_config req)
                      else Inr (JobConfig env)) of
                  Inl e \<Rightarrow> Inl e
                | Inr cfg \<Rightarrow>
                    (let new_job_config = ray_client_server_env_prep cfg;
                         modified_init_req = \<lparr>job_config = dumps env new_job_config\<rparr>
                     in Inr ((init_req\<lparr>oneof_type := init modified_init_req\<rparr>, new_job_config),
                             rest)))
           | _ \<Rightarrow> Inl AssertionError))"

text \<open>
  \<^verbatim>\<open>Datapath\<close> is a generator function: an exception raised in its body leaves it as
  it is, except \<^verbatim>\<open>StopIteration\<close>, which leaves a generator as
  \<^verbatim>\<open>RuntimeError("generator raised StopIteration")\<close>.
\<close>

definition generator_exit :: "exn \<Rightarrow> exn" where
  "generator_exit e =
     (if e = StopIteration then RuntimeError ''generator raised StopIteration'' else e)"

text \<open>
  \<^verbatim>\<open>DataServicerProxy.Datapath\<close>. The forwarder thread and the backend stream run
  concurrently on the queue; here the forwarder runs to its end and the backend stream
  then reads the queue up to the sentinel. The relation \<open>splice_step\<close> below gives the
  interleavings. The reply is the call of the backend's \<^verbatim>\<open>Datapath\<close> with the sequence
  of messages it is fed, whose responses the proxy relays.
\<close>

definition Datapath ::
  "'jc env \<Rightarrow> ProxyManager \<Rightarrow> (exn + ('p, 'z) DataRequest_scheme) list \<Rightarrow> ServicerContext
     \<Rightarrow> ((exn + ('p, 'z) DataRequest_scheme list reply) \<times> ServicerContext \<times> ProxyManager) option"
  where
  "Datapath env m request_iterator ctx =
     (let (client_id, ctx1) = get_client_id_from_context ctx
      in if client_id = '''' then Some (Inr NoReply, ctx1, m)
         else
           (case prepare_runtime_init_req env request_iterator of
              Inl e \<Rightarrow> Some (Inl (generator_exit e), ctx1, m)
            | Inr ((modified_init_req, cfg), rest) \<Rightarrow>
                (let queue = [] @ [Some modified_init_req]
                 in case start_specific_server env m client_id cfg of
                      None \<Rightarrow> None
                    | Some (Inl e, m1) \<Rightarrow> Some (Inl (generator_exit e), ctx1, m1)
                    | Some (Inr started, m1) \<Rightarrow>
                        if \<not> started then Some (Inr NoReply, set_code ABORTED ctx1, m1)
                        else
                          (case get_channel env m1 client_id of
                             None \<Rightarrow> None
                           | Some (Inl e) \<Rightarrow> Some (Inl (generator_exit e), ctx1, m1)
                           | Some (Inr None) \<Rightarrow> Some (Inr NoReply, set_code NOT_FOUND ctx1, m1)
                           | Some (Inr (Some chan)) \<Rightarrow>
                               Some (Inr (StubCall chan ''Datapath''
                                            (iter_until_sentinel
                                               (forward_streaming_requests rest queue))
                                            [(''client_id'', client_id)]),
                                     ctx1, m1)))))"

text \<open>
  The interleavings of the forwarder thread and the backend stream on the queue. A state
  holds what is left of the request iterator, the queue, the messages the backend stream
  has taken so far, whether the forwarder has put its sentinel, and whether the backend
  stream has met it.
\<close>

datatype 'a splice =
  Splice (pending: "(exn + 'a) list") (queue: "'a option list") (delivered: "'a list")
         (forwarder_done: bool) (reader_done: bool)

inductive splice_step :: "'a splice \<Rightarrow> 'a splice \<Rightarrow> bool" where
  put: "splice_step (Splice (Inr req # rest) q d False r) (Splice rest (q @ [Some req]) d False r)"
| exhausted: "splice_step (Splice [] q d False r) (Splice [] (q @ [None]) d True r)"
| broken: "splice_step (Splice (Inl e # rest) q d False r) (Splice (Inl e # rest) (q @ [None]) d True r)"
| get: "splice_step (Splice p (Some req # q) d f False) (Splice p q (d @ [req]) f False)"
| stop: "splice_step (Splice p (None # q) d f False) (Splice p q d f True)"

subsection \<open>Concrete inputs\<close>

text \<open>
  An environment in which every probe bind succeeds, the child launched for a port has
  that port as its pid, stays alive and shows the command line of the real server from
  the first look on, every channel becomes ready, and pickle is the identity on strings.
\<close>

definition example_env :: "string env" where
  "example_env =
     \<lparr>python_minor = 8, win32 = False, bind_ok = (\<lambda>p. True),
      start_ray_client_server = (\<lambda>p cfg. p),
      observe = (\<lambda>pid i. \<lparr>poll = None,
                   cmdline = [''python'', ''-m'', ''ray.util.client.server'', ''--port'']\<rparr>),
      channel_ready = (\<lambda>ch. True), loads = Inr, dumps = id, JobConfig = ''default''\<rparr>"

text \<open>A manager with one backend record, for client \<^verbatim>\<open>a\<close>, whose child has started.\<close>

definition ready_manager :: ProxyManager where
  "ready_manager =
     \<lparr>servers = [(''a'', \<lparr>port = 23000, process_handle_future = Resolved 4242,
                           channel = insecure_channel 23000\<rparr>)],
      free_ports = [23001, 23002]\<rparr>"

text \<open>A manager with one backend record, for client \<^verbatim>\<open>a\<close>, whose child has not started yet.\<close>

definition pending_manager :: ProxyManager where
  "pending_manager =
     \<lparr>servers = [(''a'', \<lparr>port = 23000, process_handle_future = Unresolved,
                           channel = insecure_channel 23000\<rparr>)],
      free_ports = [23001, 23002]\<rparr>"

definition empty_manager :: ProxyManager where
  "empty_manager = \<lparr>servers = [], free_ports = [23000, 23001, 23002]\<rparr>"

definition context_of :: "(string \<times> string) list \<Rightarrow> ServicerContext" where
  "context_of md = \<lparr>invocation_metadata = md, code = None\<rparr>"

text \<open>
  Two children whose command line has exactly three entries, the third being the literal
  of the fence: one exits (status 1) after two sleeps, the other never exits.
\<close>

definition three_entry_child :: "nat \<Rightarrow> child_obs" where
  "three_entry_child j =
     \<lparr>poll = (if j < 2 then None else Some 1),
      cmdline = [''python'', ''-m'', ''ray.util.client.server'']\<rparr>"

definition stuck_child :: "nat \<Rightarrow> child_obs" where
  "stuck_child j = \<lparr>poll = None, cmdline = [''python'', ''-m'', ''ray.util.client.server'']\<rparr>"

text \<open>The manager after a backend for client \<^verbatim>\<open>a\<close> was started on \<open>empty_manager\<close>.\<close>

definition started_manager :: ProxyManager where
  "started_manager =
     \<lparr>servers = [(''a'', \<lparr>port = 23000, process_handle_future = Resolved 23000,
                           channel = insecure_channel 23000\<rparr>)],
      free_ports = [23001, 23002]\<rparr>"

text \<open>An environment that differs from \<open>example_env\<close> in that every probe bind fails.\<close>

definition busy_env :: "string env" where
  "busy_env = example_env\<lparr>bind_ok := (\<lambda>p. False)\<rparr>"

text \<open>A first data-stream message: the \<^verbatim>\<open>init\<close> variant with an empty \<^verbatim>\<open>job_config\<close>.\<close>

definition init_message :: "unit DataRequest" where
  "init_message = \<lparr>oneof_type = init \<lparr>job_config = ''''\<rparr>\<rparr>"

text \<open>
  \<open>child_exited poll_now s\<close>: the process future of record \<open>s\<close> is resolved and polling
  that child gives an exit status.
\<close>

definition child_exited :: "(nat \<Rightarrow> int option) \<Rightarrow> SpecificServer \<Rightarrow> bool" where
  "child_exited poll_now s =
     (case process_handle_future s of Resolved pid \<Rightarrow> poll_now pid \<noteq> None | Unresolved \<Rightarrow> False)"

text \<open>
  The states of a manager on which a backend for client \<^verbatim>\<open>a\<close> is started twice, and
  the child of the second start then exits and is reaped.
\<close>

definition restarted_once :: ProxyManager where
  "restarted_once =
     \<lparr>servers = [(''a'', \<lparr>port = 23000, process_handle_future = Resolved 23000,
                           channel = insecure_channel 23000\<rparr>)],
      free_ports = [23001 ..< 24000]\<rparr>"

definition restarted_twice :: ProxyManager where
  "restarted_twice =
     \<lparr>servers = [(''a'', \<lparr>port = 23001, process_handle_future = Resolved 23001,
                           channel = insecure_channel 23001\<rparr>)],
      free_ports = [23002 ..< 24000]\<rparr>"

definition reaped :: ProxyManager where
  "reaped = \<lparr>servers = [], free_ports = [23002 ..< 24000] @ [23001]\<rparr>"

text \<open>
  A manager with three records: the child of \<^verbatim>\<open>a\<close> (pid 1) and of \<^verbatim>\<open>c\<close> (pid 3) have
  started, the child of \<^verbatim>\<open>b\<close> has not. \<open>two_resolved\<close> is the same without \<^verbatim>\<open>b\<close>.
\<close>

definition mixed_manager :: ProxyManager where
  "mixed_manager =
     \<lparr>servers = [(''a'', \<lparr>port = 23000, process_handle_future = Resolved 1,
                           channel = insecure_channel 23000\<rparr>),
                  (''b'', \<lparr>port = 23001, process_handle_future = Unresolved,
                           channel = insecure_channel 23001\<rparr>),
                  (''c'', \<lparr>port = 23002, process_handle_future = Resolved 3,
                           channel = insecure_channel 23002\<rparr>)],
      free_ports = [23003]\<rparr>"

definition two_resolved :: ProxyManager where
  "two_resolved =
     \<lparr>servers = [(''a'', \<lparr>port = 23000, process_handle_future = Resolved 1,
                           channel = insecure_channel 23000\<rparr>),
                  (''c'', \<lparr>port = 23002, process_handle_future = Resolved 3,
                           channel = insecure_channel 23002\<rparr>)],
      free_ports = [23003]\<rparr>"

text \<open>The pids of the records whose process future is resolved, in order.\<close>

definition resolved_pids :: "SpecificServer list \<Rightarrow> nat list" where
  "resolved_pids ss =
     List.map_filter (\<lambda>s. case process_handle_future s of Resolved pid \<Rightarrow> Some pid
                                                          | Unresolved \<Rightarrow> None) ss"

text \<open>\<open>example_env\<close> on an interpreter where the two timeout classes are one (Python 3.11).\<close>

definition example_env_py311 :: "string env" where
  "example_env_py311 = example_env\<lparr>python_minor := 11\<rparr>"

text \<open>The messages an iterator gives before it is exhausted or raises.\<close>

fun received :: "(exn + 'a) list \<Rightarrow> 'a list" where
  "received [] = []"
| "received (Inr x # rest) = x # received rest"
| "received (Inl e # rest) = []"

text \<open>
  The invariant of the interleavings, for a run whose complete delivery is \<open>full\<close>: once
  the backend stream has met the sentinel it has taken exactly \<open>full\<close>; before that, what
  it has taken, followed by what it will still take from the queue as the forwarder
  completes it, is \<open>full\<close>, and the queue holds no sentinel while the forwarder runs.
\<close>

fun splice_inv :: "'a list \<Rightarrow> 'a splice \<Rightarrow> bool" where
  "splice_inv full (Splice p q d f r) =
     (if r then f \<and> d = full
      else (f \<or> None \<notin> set q)
           \<and> d @ iter_until_sentinel (if f then q else forward_streaming_requests p q) = full)"

text \<open>Two later messages of a data stream, and \<open>init_message\<close> after the rewrite.\<close>

definition other_message :: "unit DataRequest" where
  "other_message = \<lparr>oneof_type = other ()\<rparr>"

definition unset_message :: "unit DataRequest" where
  "unset_message = \<lparr>oneof_type = unset\<rparr>"

definition rewritten_init_message :: "unit DataRequest" where
  "rewritten_init_message = \<lparr>oneof_type = init \<lparr>job_config = ''default''\<rparr>\<rparr>"

text \<open>A \<^verbatim>\<open>DataRequest\<close> with one more field, to have a message with a field besides the oneof.\<close>

record 'p NumberedDataRequest = "'p DataRequest" +
  req_id :: int

text \<open>
  Environments that differ from \<open>example_env\<close> in what the launched child shows: the
  child of \<open>three_entry_env\<close> is \<open>three_entry_child\<close>, that of \<open>stuck_env\<close> is
  \<open>stuck_child\<close>.
\<close>

definition three_entry_env :: "string env" where
  "three_entry_env = example_env\<lparr>observe := (\<lambda>pid. three_entry_child)\<rparr>"

definition stuck_env :: "string env" where
  "stuck_env = example_env\<lparr>observe := (\<lambda>pid. stuck_child)\<rparr>"

section \<open>Properties\<close>

subsection \<open>The unary servicer\<close>

lemma get_client_id_present:
  assumes "map_of (rev (invocation_metadata ctx)) ''client_id'' = Some cid" and "cid \<noteq> ''''"
  shows "get_client_id_from_context ctx = (cid, ctx)"
  using assms by (simp add: get_client_id_from_context_def)

lemma get_client_id_missing:
  assumes "map_of (rev (invocation_metadata ctx)) ''client_id'' = None
           \<or> map_of (rev (invocation_metadata ctx)) ''client_id'' = Some ''''"
  shows "get_client_id_from_context ctx = ('''', set_code INVALID_ARGUMENT ctx)"
  using assms by (auto simp add: get_client_id_from_context_def)

lemma get_channel_ready:
  assumes "map_of (servers m) cid = Some server"
    and "process_handle_future server = Resolved pid"
    and "channel_ready env (channel server)"
  shows "get_channel env m cid = Some (Inr (Some (channel server)))"
  using assms
  by (simp add: get_channel_def get_server_for_client_def wait_ready_def Future_result_def)

lemma get_channel_absent:
  assumes "map_of (servers m) cid = None"
  shows "get_channel env m cid = Some (Inr None)"
  using assms by (simp add: get_channel_def get_server_for_client_def)

text \<open>
  With a non-empty \<^verbatim>\<open>client_id\<close> and a ready backend, \<^verbatim>\<open>_call_inner_function\<close> returns the
  call of the stub method whose name it was given, with the request and the
  \<^verbatim>\<open>client_id\<close> metadata, and leaves the context as it was.
\<close>

lemma call_inner_function_forwards:
  assumes "map_of (rev (invocation_metadata ctx)) ''client_id'' = Some cid" and "cid \<noteq> ''''"
    and "map_of (servers m) cid = Some server"
    and "process_handle_future server = Resolved pid"
    and "channel_ready env (channel server)"
  shows "call_inner_function env m request ctx method =
           Some (Inr (StubCall (channel server) method request [(''client_id'', cid)]), ctx)"
  by (simp add: call_inner_function_def get_client_id_present[OF assms(1,2)]
      get_channel_ready[OF assms(3,4,5)])

text \<open>
  Without a \<^verbatim>\<open>client_id\<close>, and with no record under the empty id, \<^verbatim>\<open>_call_inner_function\<close>
  goes on after \<^verbatim>\<open>INVALID_ARGUMENT\<close> was set, finds no channel and sets \<^verbatim>\<open>NOT_FOUND\<close>.
\<close>

lemma call_inner_function_missing_client_id:
  assumes "map_of (rev (invocation_metadata ctx)) ''client_id'' = None
           \<or> map_of (rev (invocation_metadata ctx)) ''client_id'' = Some ''''"
    and "map_of (servers m) '''' = None"
  shows "call_inner_function env m request ctx method = Some (Inr NoReply, ctx\<lparr>code := Some NOT_FOUND\<rparr>)"
  by (simp add: call_inner_function_def get_client_id_missing[OF assms(1)]
      get_channel_absent[OF assms(2)] set_code_def)

text \<open>
  Twelve of the thirteen handlers forward to the stub method of their own name
  (\<^verbatim>\<open>ClusterInfo\<close> when the request is not a \<^verbatim>\<open>PING\<close>).
\<close>

lemma handlers_forward_same_name:
  assumes "map_of (rev (invocation_metadata ctx)) ''client_id'' = Some cid" and "cid \<noteq> ''''"
    and "map_of (servers m) cid = Some server"
    and "process_handle_future server = Resolved pid"
    and "channel_ready env (channel server)"
  shows "Init env m request ctx = Some (Inr (StubCall (channel server) ''Init'' request [(''client_id'', cid)]), ctx)"
    and "PrepRuntimeEnv env m request ctx = Some (Inr (StubCall (channel server) ''PrepRuntimeEnv'' request [(''client_id'', cid)]), ctx)"
    and "KVPut env m request ctx = Some (Inr (StubCall (channel server) ''KVPut'' request [(''client_id'', cid)]), ctx)"
    and "KVGet env m request ctx = Some (Inr (StubCall (channel server) ''KVGet'' request [(''client_id'', cid)]), ctx)"
    and "KVList env m request ctx = Some (Inr (StubCall (channel server) ''KVList'' request [(''client_id'', cid)]), ctx)"
    and "KVExists env m request ctx = Some (Inr (StubCall (channel server) ''KVExists'' request [(''client_id'', cid)]), ctx)"
    and "type info \<noteq> PING \<Longrightarrow>
           ClusterInfo env m info ctx = Some (Inr (StubCall (channel server) ''ClusterInfo'' info [(''client_id'', cid)]), ctx)"
    and "Terminate env m request ctx = Some (Inr (StubCall (channel server) ''Terminate'' request [(''client_id'', cid)]), ctx)"
    and "GetObject env m request ctx = Some (Inr (StubCall (channel server) ''GetObject'' request [(''client_id'', cid)]), ctx)"
    and "PutObject env m request ctx = Some (Inr (StubCall (channel server) ''PutObject'' request [(''client_id'', cid)]), ctx)"
    and "WaitObject env m request ctx = Some (Inr (StubCall (channel server) ''WaitObject'' request [(''client_id'', cid)]), ctx)"
    and "Schedule env m request ctx = Some (Inr (StubCall (channel server) ''Schedule'' request [(''client_id'', cid)]), ctx)"
  by (simp_all add: Init_def PrepRuntimeEnv_def KVPut_def KVGet_def KVList_def KVExists_def
      ClusterInfo_def Terminate_def GetObject_def PutObject_def WaitObject_def Schedule_def
      call_inner_function_forwards[OF assms])

text \<open>\<^verbatim>\<open>KVDel\<close> is \<^verbatim>\<open>KVGet\<close>: on every input the two handlers return the same.\<close>

lemma KVDel_is_KVGet: "KVDel env m request ctx = KVGet env m request ctx"
  by (simp add: KVDel_def KVGet_def)

text \<open>
  C1. The claim is that every unary handler forwards to the backend stub method of its
  own name. The handler \<^verbatim>\<open>KVDel\<close> does not: for client \<^verbatim>\<open>a\<close>, whose backend is ready on
  port 23000, a \<^verbatim>\<open>KVDel\<close> request is handed to the stub method \<^verbatim>\<open>KVGet\<close>, and the stub
  method \<^verbatim>\<open>KVDel\<close> is not called.
\<close>

theorem KVDel_forwards_to_KVGet:
  "KVDel example_env ready_manager request (context_of [(''client_id'', ''a'')]) =
     Some (Inr (StubCall (insecure_channel 23000) ''KVGet'' request [(''client_id'', ''a'')]),
           context_of [(''client_id'', ''a'')])
   \<and> KVDel example_env ready_manager request (context_of [(''client_id'', ''a'')]) \<noteq>
     Some (Inr (StubCall (insecure_channel 23000) ''KVDel'' request [(''client_id'', ''a'')]),
           context_of [(''client_id'', ''a'')])"
  by (simp add: KVDel_def call_inner_function_def get_client_id_from_context_def context_of_def
      get_channel_def get_server_for_client_def ready_manager_def wait_ready_def
      Future_result_def example_env_def Let_def)

text \<open>
  C2. The claim is that a unary call without \<^verbatim>\<open>client_id\<close> metadata ends with the status
  \<^verbatim>\<open>INVALID_ARGUMENT\<close>. A \<^verbatim>\<open>GetObject\<close> call with no metadata on a manager without records
  ends with the status \<^verbatim>\<open>NOT_FOUND\<close>: the handler does not return after
  \<^verbatim>\<open>_get_client_id_from_context\<close> has set \<^verbatim>\<open>INVALID_ARGUMENT\<close>, looks up the empty client id,
  and overwrites the status. It returns \<^verbatim>\<open>None\<close> and calls no stub.
\<close>

theorem GetObject_without_client_id_NOT_FOUND:
  "GetObject example_env empty_manager request (context_of []) =
     Some (Inr NoReply, \<lparr>invocation_metadata = [], code = Some NOT_FOUND\<rparr>)
   \<and> fst (get_client_id_from_context (context_of [])) = ''''
   \<and> code (snd (get_client_id_from_context (context_of []))) = Some INVALID_ARGUMENT"
  by (simp add: GetObject_def call_inner_function_def get_client_id_from_context_def
      context_of_def get_channel_def get_server_for_client_def empty_manager_def set_code_def
      Let_def)

text \<open>
  C8. A \<^verbatim>\<open>ClusterInfo\<close> request whose \<^verbatim>\<open>type\<close> is \<^verbatim>\<open>PING\<close> is answered with a
  \<^verbatim>\<open>ClusterInfoResponse\<close> whose \<^verbatim>\<open>json\<close> is the empty JSON object. The answer is the same for
  every manager state, environment and context: no record is looked up, no stub is called,
  the context (metadata and status) is not touched, and the call returns even when there
  is no record for the client or its record is not ready.
\<close>

theorem ClusterInfo_PING_answered_locally:
  "type request = PING \<Longrightarrow>
     ClusterInfo env m request ctx = Some (Inr (ClusterInfoResponse ''{}''), ctx)"
  by (simp add: ClusterInfo_def)

theorem ClusterInfo_PING_answered_locally_witness:
  "type \<lparr>type = PING\<rparr> = PING
   \<and> ClusterInfo example_env \<lparr>servers = [], free_ports = []\<rparr> \<lparr>type = PING\<rparr> (context_of []) =
       Some (Inr (ClusterInfoResponse ''{}''), context_of [])
   \<and> ClusterInfo example_env pending_manager \<lparr>type = PING\<rparr> (context_of [(''client_id'', ''a'')]) =
       Some (Inr (ClusterInfoResponse ''{}''), context_of [(''client_id'', ''a'')])"
  using ClusterInfo_PING_answered_locally
          [of "\<lparr>type = PING\<rparr>" example_env "\<lparr>servers = [], free_ports = []\<rparr>" "context_of []"]
        ClusterInfo_PING_answered_locally
          [of "\<lparr>type = PING\<rparr>" example_env pending_manager "context_of [(''client_id'', ''a'')]"]
  by simp

subsection \<open>The start-up loop\<close>

lemma wait_for_server_runs:
  assumes "\<forall>j<n. poll (child (i + j)) = None \<and> \<not> past_fence (cmdline (child (i + j)))"
    and "poll (child (i + n)) \<noteq> None \<or> past_fence (cmdline (child (i + n)))"
  shows "wait_for_server child i = Some (i + n)"
  using assms
proof (induction n arbitrary: i)
  case 0
  then show ?case by (subst wait_for_server.simps) auto
next
  case (Suc n)
  from Suc.prems(1) have here: "poll (child i) = None" "\<not> past_fence (cmdline (child i))"
    by (metis add.right_neutral zero_less_Suc)+
  have "wait_for_server child (Suc i) = Some (Suc i + n)"
  proof (rule Suc.IH)
    show "\<forall>j<n. poll (child (Suc i + j)) = None \<and> \<not> past_fence (cmdline (child (Suc i + j)))"
      using Suc.prems(1) by (metis Suc_less_eq add_Suc_shift)
    show "poll (child (Suc i + n)) \<noteq> None \<or> past_fence (cmdline (child (Suc i + n)))"
      using Suc.prems(2) by simp
  qed
  with here show ?case by (subst wait_for_server.simps) simp
qed

lemma wait_for_server_result:
  assumes "wait_for_server child i = Some k"
  shows "i \<le> k
         \<and> (\<forall>j. i \<le> j \<and> j < k \<longrightarrow> poll (child j) = None \<and> \<not> past_fence (cmdline (child j)))
         \<and> (poll (child k) \<noteq> None \<or> past_fence (cmdline (child k)))"
proof (rule wait_for_server.raw_induct
    [where P = "\<lambda>child i k. i \<le> k
         \<and> (\<forall>j. i \<le> j \<and> j < k \<longrightarrow> poll (child j) = None \<and> \<not> past_fence (cmdline (child j)))
         \<and> (poll (child k) \<noteq> None \<or> past_fence (cmdline (child k)))",
     OF _ assms])
  fix f :: "(nat \<Rightarrow> child_obs) \<Rightarrow> nat \<Rightarrow> nat option" and child i k
  assume IH: "\<And>c i y. f c i = Some y \<Longrightarrow> i \<le> y
         \<and> (\<forall>j. i \<le> j \<and> j < y \<longrightarrow> poll (c j) = None \<and> \<not> past_fence (cmdline (c j)))
         \<and> (poll (c y) \<noteq> None \<or> past_fence (cmdline (c y)))"
    and eq: "(if poll (child i) \<noteq> None then Some i
              else if past_fence (cmdline (child i)) then Some i
              else f child (Suc i)) = Some k"
  show "i \<le> k
         \<and> (\<forall>j. i \<le> j \<and> j < k \<longrightarrow> poll (child j) = None \<and> \<not> past_fence (cmdline (child j)))
         \<and> (poll (child k) \<noteq> None \<or> past_fence (cmdline (child k)))"
  proof (cases "poll (child i) \<noteq> None \<or> past_fence (cmdline (child i))")
    case True
    with eq have "k = i" by (auto split: if_splits)
    with True show ?thesis by auto
  next
    case False
    with eq have "f child (Suc i) = Some k" by (auto split: if_splits)
    from IH[OF this] False show ?thesis
      by (metis Suc_leD Suc_leI le_neq_implies_less)
  qed
qed

lemma wait_for_server_iff:
  "wait_for_server child 0 = Some n \<longleftrightarrow>
     (\<forall>j<n. poll (child j) = None \<and> \<not> past_fence (cmdline (child j)))
     \<and> (poll (child n) \<noteq> None \<or> past_fence (cmdline (child n)))"
proof
  assume "wait_for_server child 0 = Some n"
  from wait_for_server_result[OF this]
  show "(\<forall>j<n. poll (child j) = None \<and> \<not> past_fence (cmdline (child j)))
     \<and> (poll (child n) \<noteq> None \<or> past_fence (cmdline (child n)))"
    by simp
next
  assume "(\<forall>j<n. poll (child j) = None \<and> \<not> past_fence (cmdline (child j)))
     \<and> (poll (child n) \<noteq> None \<or> past_fence (cmdline (child n)))"
  then show "wait_for_server child 0 = Some n"
    using wait_for_server_runs[of n child 0] by simp
qed

lemma wait_for_server_never:
  assumes "\<forall>j. poll (child j) = None \<and> \<not> past_fence (cmdline (child j))"
  shows "wait_for_server child 0 = None"
proof (cases "wait_for_server child 0")
  case None
  then show ?thesis .
next
  case (Some k)
  from wait_for_server_result[OF this] assms show ?thesis by auto
qed

lemma three_entries_not_past_fence: "length cmd = 3 \<Longrightarrow> \<not> past_fence cmd"
  by (simp add: past_fence_def)

text \<open>
  On a platform other than win32, \<^verbatim>\<open>start_specific_server\<close> returns \<^verbatim>\<open>True\<close> only when
  some look at the child showed it alive with a command line past the fence.
\<close>

lemma start_specific_server_True:
  assumes "\<not> win32 env" and "start_specific_server env m cid cfg = Some (Inr True, m')"
  shows "\<exists>pid i. poll (observe env pid i) = None \<and> past_fence (cmdline (observe env pid i))"
proof (cases "start_specific_server_locked env m cid")
  case (Pair r m1)
  show ?thesis
  proof (cases r)
    case (Inl e)
    with Pair assms(2) show ?thesis by (simp add: start_specific_server_def)
  next
    case (Inr p)
    define pid where "pid = start_ray_client_server env p cfg"
    from Pair Inr assms obtain i where
      w: "wait_for_server (observe env pid) 0 = Some i" and alive: "poll (observe env pid i) = None"
      by (auto simp add: start_specific_server_def pid_def Let_def split: option.splits)
    from wait_for_server_result[OF w] alive have "past_fence (cmdline (observe env pid i))"
      by simp
    with alive show ?thesis by blast
  qed
qed

lemma start_specific_server_example:
  "start_specific_server example_env empty_manager ''a'' ''cfg'' = Some (Inr True, started_manager)"
proof -
  have p: "probe_ports (\<lambda>p. True) (Suc (Suc (Suc 0))) [23000, 23001, 23002] = (Inr 23000, [23001, 23002])"
    by simp
  have l: "start_specific_server_locked example_env empty_manager ''a'' =
             (Inr 23000, \<lparr>servers = [(''a'', \<lparr>port = 23000, process_handle_future = Unresolved,
                                                  channel = insecure_channel 23000\<rparr>)],
                          free_ports = [23001, 23002]\<rparr>)"
    using p
    by (simp add: start_specific_server_locked_def get_unused_port_def empty_manager_def
        example_env_def numeral_3_eq_3)
  have w: "wait_for_server (observe example_env 23000) 0 = Some 0"
    by (subst wait_for_server.simps) (simp add: example_env_def past_fence_def)
  have o: "poll (observe example_env 23000 0) = None" "\<not> win32 example_env"
    "start_ray_client_server example_env 23000 ''cfg'' = 23000"
    by (simp_all add: example_env_def)
  show ?thesis
    by (simp add: start_specific_server_def l w o started_manager_def)
qed

text \<open>
  \<^verbatim>\<open>start_specific_server\<close> outside win32, once a port \<open>p\<close> has been acquired: it returns
  when the start-up loop on the child launched for \<open>p\<close> ends, and does not return when
  that loop never ends.
\<close>

lemma start_specific_server_loop:
  assumes "\<not> win32 env" and "get_unused_port env m = (Inr p, m0)"
  shows "start_specific_server env m cid cfg =
           (case wait_for_server (observe env (start_ray_client_server env p cfg)) 0 of
              None \<Rightarrow> None
            | Some n \<Rightarrow>
                Some (Inr (poll (observe env (start_ray_client_server env p cfg) n) = None),
                      m0\<lparr>servers := AList.map_entry cid
                            (\<lambda>s. s\<lparr>process_handle_future :=
                                      Resolved (start_ray_client_server env p cfg)\<rparr>)
                            (AList.update cid
                               \<lparr>port = p, process_handle_future = Unresolved,
                                  channel = insecure_channel p\<rparr>
                               (servers m0))\<rparr>))"
  using assms
  by (simp add: start_specific_server_def start_specific_server_locked_def Let_def
      split: option.splits)

text \<open>
  C10. Outside win32, let \<^verbatim>\<open>_get_unused_port\<close> give the port \<open>p\<close>, and let \<open>child\<close> be
  what the child launched for \<open>p\<close> shows at each look. \<^verbatim>\<open>start_specific_server\<close> returns
  exactly when there is a look \<open>n\<close> at that child such that at every earlier look the
  child was alive and its command line did not have more than three entries with
  \<^verbatim>\<open>ray.util.client.server\<close> at index 2, and at look \<open>n\<close> the child has exited or its
  command line has more than three entries with that literal at index 2; its result is
  then whether the child is alive at look \<open>n\<close>, and the record of the client holds the
  resolved handle. So when the command line of the child always has exactly three
  entries, whatever they are: if the child never exits, \<^verbatim>\<open>start_specific_server\<close> does
  not return; and if the child first shows an exit status at look \<open>n\<close>, it returns
  \<^verbatim>\<open>False\<close> after that look.
\<close>

theorem startup_fence_needs_more_than_three_entries:
  fixes env :: "'jc env" and p :: nat and cfg :: 'jc and m0 :: ProxyManager and cid :: string
  defines "child \<equiv> observe env (start_ray_client_server env p cfg)"
    and "final \<equiv> m0\<lparr>servers := AList.map_entry cid
                       (\<lambda>s. s\<lparr>process_handle_future :=
                                 Resolved (start_ray_client_server env p cfg)\<rparr>)
                       (AList.update cid
                          \<lparr>port = p, process_handle_future = Unresolved,
                             channel = insecure_channel p\<rparr>
                          (servers m0))\<rparr>"
  assumes "\<not> win32 env" and "get_unused_port env m = (Inr p, m0)"
  shows "(start_specific_server env m cid cfg = Some (r, m') \<longleftrightarrow>
            (\<exists>n. (\<forall>j<n. poll (child j) = None
                         \<and> \<not> (3 < length (cmdline (child j))
                              \<and> cmdline (child j) ! 2 = ''ray.util.client.server''))
                 \<and> (poll (child n) \<noteq> None
                    \<or> (3 < length (cmdline (child n))
                       \<and> cmdline (child n) ! 2 = ''ray.util.client.server''))
                 \<and> r = Inr (poll (child n) = None) \<and> m' = final))
         \<and> ((\<forall>j. length (cmdline (child j)) = 3) \<longrightarrow>
               ((\<forall>j. poll (child j) = None) \<longrightarrow> start_specific_server env m cid cfg = None)
               \<and> ((\<forall>j<k. poll (child j) = None) \<and> poll (child k) \<noteq> None \<longrightarrow>
                    start_specific_server env m cid cfg = Some (Inr False, final)))"
proof (intro conjI impI)
  note loop = start_specific_server_loop[OF assms(3,4), of cid cfg, folded child_def final_def]
  show "start_specific_server env m cid cfg = Some (r, m') \<longleftrightarrow>
            (\<exists>n. (\<forall>j<n. poll (child j) = None
                         \<and> \<not> (3 < length (cmdline (child j))
                              \<and> cmdline (child j) ! 2 = ''ray.util.client.server''))
                 \<and> (poll (child n) \<noteq> None
                    \<or> (3 < length (cmdline (child n))
                       \<and> cmdline (child n) ! 2 = ''ray.util.client.server''))
                 \<and> r = Inr (poll (child n) = None) \<and> m' = final)"
  proof
    assume "start_specific_server env m cid cfg = Some (r, m')"
    with loop obtain n where w: "wait_for_server child 0 = Some n"
      and r: "r = Inr (poll (child n) = None)" and m': "m' = final"
      by (auto split: option.splits)
    from w[unfolded wait_for_server_iff] r m'
    show "\<exists>n. (\<forall>j<n. poll (child j) = None
                         \<and> \<not> (3 < length (cmdline (child j))
                              \<and> cmdline (child j) ! 2 = ''ray.util.client.server''))
                 \<and> (poll (child n) \<noteq> None
                    \<or> (3 < length (cmdline (child n))
                       \<and> cmdline (child n) ! 2 = ''ray.util.client.server''))
                 \<and> r = Inr (poll (child n) = None) \<and> m' = final"
      unfolding past_fence_def by blast
  next
    assume "\<exists>n. (\<forall>j<n. poll (child j) = None
                         \<and> \<not> (3 < length (cmdline (child j))
                              \<and> cmdline (child j) ! 2 = ''ray.util.client.server''))
                 \<and> (poll (child n) \<noteq> None
                    \<or> (3 < length (cmdline (child n))
                       \<and> cmdline (child n) ! 2 = ''ray.util.client.server''))
                 \<and> r = Inr (poll (child n) = None) \<and> m' = final"
    then obtain n where
      b: "\<forall>j<n. poll (child j) = None \<and> \<not> past_fence (cmdline (child j))"
      and s: "poll (child n) \<noteq> None \<or> past_fence (cmdline (child n))"
      and r: "r = Inr (poll (child n) = None)" and m': "m' = final"
      unfolding past_fence_def by blast
    from b s have "wait_for_server child 0 = Some n"
      by (simp add: wait_for_server_iff)
    with loop r m' show "start_specific_server env m cid cfg = Some (r, m')" by simp
  qed
next
  note loop = start_specific_server_loop[OF assms(3,4), of cid cfg, folded child_def final_def]
  assume three: "\<forall>j. length (cmdline (child j)) = 3"
  then have nf: "\<And>j. \<not> past_fence (cmdline (child j))"
    by (simp add: three_entries_not_past_fence)
  {
    assume "\<forall>j. poll (child j) = None"
    with nf have "wait_for_server child 0 = None" by (simp add: wait_for_server_never)
    with loop show "start_specific_server env m cid cfg = None" by simp
  }
  {
    assume "(\<forall>j<k. poll (child j) = None) \<and> poll (child k) \<noteq> None"
    with nf have "wait_for_server child 0 = Some k" by (simp add: wait_for_server_iff)
    moreover from \<open>(\<forall>j<k. poll (child j) = None) \<and> poll (child k) \<noteq> None\<close>
    have "(poll (child k) = None) = False" by simp
    ultimately show "start_specific_server env m cid cfg = Some (Inr False, final)"
      using loop by simp
  }
qed

theorem startup_fence_needs_more_than_three_entries_witness:
  "\<not> win32 three_entry_env
   \<and> get_unused_port three_entry_env empty_manager =
       (Inr 23000, \<lparr>servers = [], free_ports = [23001, 23002]\<rparr>)
   \<and> (\<forall>j. length (cmdline (three_entry_child j)) = 3)
   \<and> cmdline (three_entry_child 0) ! 2 = ''ray.util.client.server''
   \<and> poll (three_entry_child 0) = None \<and> poll (three_entry_child 1) = None
   \<and> poll (three_entry_child 2) = Some 1
   \<and> start_specific_server three_entry_env empty_manager ''a'' ''cfg'' =
       Some (Inr False, started_manager)
   \<and> (\<forall>j. poll (stuck_child j) = None)
   \<and> start_specific_server stuck_env empty_manager ''a'' ''cfg'' = None
   \<and> start_specific_server example_env empty_manager ''a'' ''cfg'' = Some (Inr True, started_manager)"
proof -
  have w: "\<not> win32 three_entry_env" "\<not> win32 stuck_env" "\<not> win32 example_env"
    by (simp_all add: three_entry_env_def stuck_env_def example_env_def)
  have p: "probe_ports (\<lambda>p. True) (Suc (Suc (Suc 0))) [23000, 23001, 23002] = (Inr 23000, [23001, 23002])"
    by simp
  have g: "get_unused_port three_entry_env empty_manager =
             (Inr 23000, \<lparr>servers = [], free_ports = [23001, 23002]\<rparr>)"
    "get_unused_port stuck_env empty_manager =
             (Inr 23000, \<lparr>servers = [], free_ports = [23001, 23002]\<rparr>)"
    "get_unused_port example_env empty_manager =
             (Inr 23000, \<lparr>servers = [], free_ports = [23001, 23002]\<rparr>)"
    using p
    by (simp_all add: get_unused_port_def empty_manager_def three_entry_env_def stuck_env_def
        example_env_def numeral_3_eq_3)
  have c: "observe three_entry_env 23000 = three_entry_child"
    "observe stuck_env 23000 = stuck_child"
    "start_ray_client_server three_entry_env 23000 ''cfg'' = 23000"
    "start_ray_client_server stuck_env 23000 ''cfg'' = 23000"
    "start_ray_client_server example_env 23000 ''cfg'' = 23000"
    by (simp_all add: three_entry_env_def stuck_env_def example_env_def)
  have t: "\<forall>j. length (cmdline (three_entry_child j)) = 3"
    "cmdline (three_entry_child 0) ! 2 = ''ray.util.client.server''"
    "poll (three_entry_child 0) = None" "poll (three_entry_child 1) = None"
    "poll (three_entry_child 2) = Some 1"
    "(\<forall>j<2. poll (three_entry_child j) = None) \<and> poll (three_entry_child 2) \<noteq> None"
    by (simp_all add: three_entry_child_def)
  have u: "\<forall>j. length (cmdline (stuck_child j)) = 3" "\<forall>j. poll (stuck_child j) = None"
    by (simp_all add: stuck_child_def)
  have f: "\<lparr>servers = [], free_ports = [23001, 23002]\<rparr>
             \<lparr>servers := AList.map_entry ''a'' (\<lambda>s. s\<lparr>process_handle_future := Resolved 23000\<rparr>)
                 (AList.update ''a''
                    \<lparr>port = 23000, process_handle_future = Unresolved,
                       channel = insecure_channel 23000\<rparr>
                    (servers \<lparr>servers = [], free_ports = [23001, 23002]\<rparr>))\<rparr> = started_manager"
    by (simp add: started_manager_def)
  from startup_fence_needs_more_than_three_entries
         [OF w(1) g(1), where cid = "''a''" and cfg = "''cfg''" and k = 2
            and r = "Inr False" and m' = started_manager]
       t(1,6)
  have 1: "start_specific_server three_entry_env empty_manager ''a'' ''cfg'' =
             Some (Inr False, started_manager)"
    unfolding c f by blast
  from startup_fence_needs_more_than_three_entries
         [OF w(2) g(2), where cid = "''a''" and cfg = "''cfg''" and k = 0
            and r = "Inr False" and m' = started_manager]
       u
  have 2: "start_specific_server stuck_env empty_manager ''a'' ''cfg'' = None"
    unfolding c f by blast
  have e: "poll (observe example_env 23000 0) = None"
    "3 < length (cmdline (observe example_env 23000 0))"
    "cmdline (observe example_env 23000 0) ! 2 = ''ray.util.client.server''"
    by (simp_all add: example_env_def)
  from startup_fence_needs_more_than_three_entries
         [OF w(3) g(3), where cid = "''a''" and cfg = "''cfg''" and k = 0
            and r = "Inr True" and m' = started_manager]
  have "start_specific_server example_env empty_manager ''a'' ''cfg'' = Some (Inr True, started_manager)
          \<longleftrightarrow> (\<exists>n. (\<forall>j<n. poll (observe example_env 23000 j) = None
                         \<and> \<not> (3 < length (cmdline (observe example_env 23000 j))
                              \<and> cmdline (observe example_env 23000 j) ! 2 = ''ray.util.client.server''))
                 \<and> (poll (observe example_env 23000 n) \<noteq> None
                    \<or> (3 < length (cmdline (observe example_env 23000 n))
                       \<and> cmdline (observe example_env 23000 n) ! 2 = ''ray.util.client.server''))
                 \<and> (Inr True :: exn + bool) = Inr (poll (observe example_env 23000 n) = None)
                 \<and> started_manager = started_manager)"
    unfolding c f by blast
  moreover have "\<exists>n. (\<forall>j<n. poll (observe example_env 23000 j) = None
                         \<and> \<not> (3 < length (cmdline (observe example_env 23000 j))
                              \<and> cmdline (observe example_env 23000 j) ! 2 = ''ray.util.client.server''))
                 \<and> (poll (observe example_env 23000 n) \<noteq> None
                    \<or> (3 < length (cmdline (observe example_env 23000 n))
                       \<and> cmdline (observe example_env 23000 n) ! 2 = ''ray.util.client.server''))
                 \<and> (Inr True :: exn + bool) = Inr (poll (observe example_env 23000 n) = None)
                 \<and> started_manager = started_manager"
    using e by (intro exI[of _ 0]) simp
  ultimately have 3: "start_specific_server example_env empty_manager ''a'' ''cfg'' = Some (Inr True, started_manager)"
    by blast
  from w(1) g(1) t(1,2,3,4,5) 1 u(2) 2 3 show ?thesis by blast
qed

subsection \<open>The port pool\<close>

lemma probe_ports_all_fail:
  assumes "\<forall>p\<in>set fp. \<not> ok p" and "n \<le> length fp"
  shows "probe_ports ok n fp =
           (Inl (RuntimeError ''Unable to succeed in selecting a random port.''), rotate n fp)"
  using assms
proof (induction n arbitrary: fp)
  case 0
  then show ?case by simp
next
  case (Suc n)
  then obtain p fp' where fp: "fp = p # fp'" by (cases fp) auto
  with Suc.prems have "\<forall>q\<in>set (fp' @ [p]). \<not> ok q" and "n \<le> length (fp' @ [p])" and "\<not> ok p"
    by auto
  with Suc.IH[of "fp' @ [p]"] fp show ?case
    by (simp add: rotate1_rotate_swap)
qed

lemma get_unused_port_exhausted:
  assumes "\<forall>p\<in>set (free_ports m). \<not> bind_ok env p"
  shows "get_unused_port env m =
           (Inl (RuntimeError ''Unable to succeed in selecting a random port.''), m)"
  using probe_ports_all_fail[OF assms, of "length (free_ports m)"]
  by (simp add: get_unused_port_def)

lemma probe_ports_length:
  "probe_ports ok n fp = (r, fp') \<Longrightarrow>
     (case r of Inl e \<Rightarrow> length fp' = length fp | Inr p \<Rightarrow> Suc (length fp') = length fp)"
  by (induction ok n fp arbitrary: r fp' rule: probe_ports.induct) (auto split: if_splits sum.splits)

lemma length_dict_set:
  "length (AList.update k v al) = (if k \<in> fst ` set al then length al else Suc (length al))"
  by (induction al) auto

lemma length_map_entry: "length (AList.map_entry k f al) = length al"
  by (induction al) auto

text \<open>
  What the locked block does to the two sizes: a port leaves the free list, and the
  record map grows only when the client id is new. When the id already has a record,
  that record is replaced and its port returns to neither the free list nor any record.
\<close>

lemma start_specific_server_locked_sizes:
  assumes "start_specific_server_locked env m cid = (Inr p, m')"
  shows "Suc (length (free_ports m')) = length (free_ports m)"
    and "length (servers m') =
           (if cid \<in> fst ` set (servers m) then length (servers m) else Suc (length (servers m)))"
proof -
  obtain r fp where pp: "probe_ports (bind_ok env) (length (free_ports m)) (free_ports m) = (r, fp)"
    by (cases "probe_ports (bind_ok env) (length (free_ports m)) (free_ports m)")
  with assms have r: "r = Inr p"
    and m': "m' = m\<lparr>free_ports := fp,
                     servers := AList.update cid
                       \<lparr>port = p, process_handle_future = Unresolved, channel = insecure_channel p\<rparr>
                       (servers m)\<rparr>"
    by (auto simp add: start_specific_server_locked_def get_unused_port_def split: sum.splits)
  from probe_ports_length[OF pp] r show "Suc (length (free_ports m')) = length (free_ports m)"
    by (simp add: m')
  show "length (servers m') =
           (if cid \<in> fst ` set (servers m) then length (servers m) else Suc (length (servers m)))"
    by (simp add: m' length_dict_set)
qed

lemma start_specific_server_sizes:
  assumes "start_specific_server env m cid cfg = Some (Inr b, m')"
  shows "Suc (length (free_ports m')) = length (free_ports m)"
    and "length (servers m') =
           (if cid \<in> fst ` set (servers m) then length (servers m) else Suc (length (servers m)))"
proof -
  obtain r m1 where l: "start_specific_server_locked env m cid = (r, m1)"
    by (cases "start_specific_server_locked env m cid")
  with assms obtain p pid where r: "r = Inr p"
    and m': "m' = m1\<lparr>servers := AList.map_entry cid
                        (\<lambda>s. s\<lparr>process_handle_future := Resolved pid\<rparr>) (servers m1)\<rparr>"
    by (auto simp add: start_specific_server_def Let_def split: sum.splits option.splits)
  from start_specific_server_locked_sizes[OF l[unfolded r]]
  show "Suc (length (free_ports m')) = length (free_ports m)"
    and "length (servers m') =
           (if cid \<in> fst ` set (servers m) then length (servers m) else Suc (length (servers m)))"
    by (simp_all add: m' length_map_entry)
qed

text \<open>Starting a backend for a client id without a record keeps the sum of the two sizes.\<close>

lemma start_specific_server_new_id_conserves:
  assumes "start_specific_server env m cid cfg = Some (Inr b, m')"
    and "cid \<notin> fst ` set (servers m)"
  shows "length (free_ports m') + length (servers m') = length (free_ports m) + length (servers m)"
  using start_specific_server_sizes[OF assms(1)] assms(2) by simp

text \<open>Starting a backend for a client id that has a record lowers the sum by one.\<close>

lemma start_specific_server_same_id_leaks:
  assumes "start_specific_server env m cid cfg = Some (Inr b, m')"
    and "cid \<in> fst ` set (servers m)"
  shows "Suc (length (free_ports m') + length (servers m')) = length (free_ports m) + length (servers m)"
  using start_specific_server_sizes[OF assms(1)] assms(2) by simp

text \<open>
  C4 (as the code has it). When every port of the free list fails the probe bind, or the
  free list is empty, \<^verbatim>\<open>_get_unused_port\<close> raises
  \<^verbatim>\<open>RuntimeError("Unable to succeed in selecting a random port.")\<close> and leaves the free
  list as it was; the exception leaves \<^verbatim>\<open>start_specific_server\<close> and \<^verbatim>\<open>Datapath\<close>
  uncaught, no record is installed and no status code is set on the context.
\<close>

theorem exhausted_pool_raises_RuntimeError:
  assumes "\<forall>p\<in>set (free_ports m). \<not> bind_ok env p"
  shows "get_unused_port env m =
           (Inl (RuntimeError ''Unable to succeed in selecting a random port.''), m)
         \<and> start_specific_server env m client_id cfg =
             Some (Inl (RuntimeError ''Unable to succeed in selecting a random port.''), m)
         \<and> (get_client_id_from_context ctx = (client_id, ctx) \<and> client_id \<noteq> ''''
              \<and> prepare_runtime_init_req env request_iterator = Inr ((req, cfg), rest)
            \<longrightarrow> Datapath env m request_iterator ctx =
                  Some (Inl (RuntimeError ''Unable to succeed in selecting a random port.''), ctx, m))"
proof -
  note g = get_unused_port_exhausted[OF assms]
  have s: "start_specific_server env m cid cfg =
             Some (Inl (RuntimeError ''Unable to succeed in selecting a random port.''), m)"
    for cid cfg
    by (simp add: start_specific_server_def start_specific_server_locked_def g)
  show ?thesis
    by (simp add: g s Datapath_def generator_exit_def)
qed

theorem exhausted_pool_raises_RuntimeError_witness:
  "free_ports empty_manager = [23000, 23001, 23002]
   \<and> \<not> bind_ok busy_env 23000 \<and> \<not> bind_ok busy_env 23001 \<and> \<not> bind_ok busy_env 23002
   \<and> get_unused_port busy_env empty_manager =
       (Inl (RuntimeError ''Unable to succeed in selecting a random port.''), empty_manager)
   \<and> start_specific_server busy_env empty_manager ''a'' ''default'' =
       Some (Inl (RuntimeError ''Unable to succeed in selecting a random port.''), empty_manager)
   \<and> Datapath busy_env empty_manager [Inr init_message] (context_of [(''client_id'', ''a'')]) =
       Some (Inl (RuntimeError ''Unable to succeed in selecting a random port.''),
             context_of [(''client_id'', ''a'')], empty_manager)"
proof -
  have h: "\<forall>p\<in>set (free_ports empty_manager). \<not> bind_ok busy_env p"
    by (simp add: busy_env_def example_env_def)
  have c: "get_client_id_from_context (context_of [(''client_id'', ''a'')]) =
             (''a'', context_of [(''client_id'', ''a'')])"
    by (simp add: get_client_id_from_context_def context_of_def Let_def)
  have p: "prepare_runtime_init_req busy_env [Inr init_message] =
             Inr ((\<lparr>oneof_type = init \<lparr>job_config = ''default''\<rparr>\<rparr>, ''default''), [])"
    by (simp add: prepare_runtime_init_req_def init_message_def busy_env_def example_env_def
        ray_client_server_env_prep_def Let_def)
  have f: "free_ports empty_manager = [23000, 23001, 23002]"
    by (simp add: empty_manager_def)
  from exhausted_pool_raises_RuntimeError
         [OF h, where client_id = "''a''" and cfg = "''default''"
            and ctx = "context_of [(''client_id'', ''a'')]"
            and request_iterator = "[Inr init_message]"
            and req = "\<lparr>oneof_type = init \<lparr>job_config = ''default''\<rparr>\<rparr>" and rest = "[]"]
       c p f
  show ?thesis by (simp add: busy_env_def)
qed

text \<open>
  C4 as stated fails: with every probe bind failing, a data stream that opens for client
  \<^verbatim>\<open>a\<close> ends with a \<^verbatim>\<open>RuntimeError\<close> that leaves \<^verbatim>\<open>Datapath\<close>, and the status code of
  the context is still unset; it is not \<^verbatim>\<open>RESOURCE_EXHAUSTED\<close>.
\<close>

theorem exhausted_pool_not_RESOURCE_EXHAUSTED:
  "Datapath busy_env empty_manager [Inr init_message] (context_of [(''client_id'', ''a'')]) =
     Some (Inl (RuntimeError ''Unable to succeed in selecting a random port.''),
           \<lparr>invocation_metadata = [(''client_id'', ''a'')], code = None\<rparr>, empty_manager)
   \<and> code (fst (snd (the (Datapath busy_env empty_manager [Inr init_message]
                              (context_of [(''client_id'', ''a'')]))))) \<noteq> Some RESOURCE_EXHAUSTED"
proof -
  have h: "\<forall>p\<in>set (free_ports empty_manager). \<not> bind_ok busy_env p"
    by (simp add: busy_env_def example_env_def)
  have s: "start_specific_server busy_env empty_manager cid cfg =
             Some (Inl (RuntimeError ''Unable to succeed in selecting a random port.''), empty_manager)"
    for cid cfg
    by (simp add: start_specific_server_def start_specific_server_locked_def
        get_unused_port_exhausted[OF h])
  have p: "prepare_runtime_init_req busy_env [Inr init_message] =
             Inr ((\<lparr>oneof_type = init \<lparr>job_config = ''default''\<rparr>\<rparr>, ''default''), [])"
    by (simp add: prepare_runtime_init_req_def init_message_def busy_env_def example_env_def
        ray_client_server_env_prep_def Let_def)
  have d: "Datapath busy_env empty_manager [Inr init_message] (context_of [(''client_id'', ''a'')]) =
     Some (Inl (RuntimeError ''Unable to succeed in selecting a random port.''),
           \<lparr>invocation_metadata = [(''client_id'', ''a'')], code = None\<rparr>, empty_manager)"
    by (simp add: Datapath_def get_client_id_from_context_def context_of_def p s Let_def
        generator_exit_def)
  show ?thesis by (simp add: d)
qed

subsection \<open>Replacing a record\<close>

lemma probe_ports_head_ok:
  "ok p \<Longrightarrow> probe_ports ok (length (p # fp)) (p # fp) = (Inr p, fp)"
  by simp

lemma start_specific_server_locked_head:
  assumes "free_ports m = p # fp" and "bind_ok env p"
  shows "start_specific_server_locked env m cid =
           (Inr p, m\<lparr>free_ports := fp,
                     servers := AList.update cid
                       \<lparr>port = p, process_handle_future = Unresolved, channel = insecure_channel p\<rparr>
                       (servers m)\<rparr>)"
  using probe_ports_head_ok[of "bind_ok env" p fp] assms(2)
  by (simp add: start_specific_server_locked_def get_unused_port_def assms(1))

lemma start_specific_server_example_env:
  assumes "free_ports m = p # fp"
  shows "start_specific_server example_env m cid cfg =
           Some (Inr True,
                 m\<lparr>free_ports := fp,
                   servers := AList.map_entry cid (\<lambda>s. s\<lparr>process_handle_future := Resolved p\<rparr>)
                     (AList.update cid
                        \<lparr>port = p, process_handle_future = Unresolved, channel = insecure_channel p\<rparr>
                        (servers m))\<rparr>)"
proof -
  have b: "bind_ok example_env p" by (simp add: example_env_def)
  have w: "wait_for_server (observe example_env p) 0 = Some 0"
    by (subst wait_for_server.simps) (simp add: example_env_def past_fence_def)
  have o: "poll (observe example_env p 0) = None" "\<not> win32 example_env"
    "start_ray_client_server example_env p cfg = p"
    by (simp_all add: example_env_def)
  show ?thesis
    by (simp add: start_specific_server_def start_specific_server_locked_head[OF assms b] w o)
qed

lemma pool_head: "[23000 ..< 24000] = 23000 # [23001 ..< (24000::nat)]"
  "[23001 ..< 24000] = 23001 # [23002 ..< (24000::nat)]"
  by (simp_all add: upt_conv_Cons del: upt_rec_numeral)

text \<open>
  C3. The claim is that the number of free ports plus the number of records is always
  the size of the pool, and that no port is lost when a record is replaced. Start from the
  fresh manager (1000 free ports, no record) in \<open>example_env\<close>. A first data stream of
  client \<^verbatim>\<open>a\<close> starts a backend on port 23000. A second data stream of the same client,
  before the reaper has removed that record, starts a backend on port 23001 and
  overwrites the record: the sum is now 999. When the second child has exited and the
  reaper has removed its record, 999 ports are free and there is no record: port 23000 is
  in neither the free list nor any record.
\<close>

theorem overwritten_record_leaks_port:
  "length (free_ports ProxyManager_init) + length (servers ProxyManager_init) = 1000
   \<and> start_specific_server example_env ProxyManager_init ''a'' ''cfg'' = Some (Inr True, restarted_once)
   \<and> start_specific_server example_env restarted_once ''a'' ''cfg'' = Some (Inr True, restarted_twice)
   \<and> length (free_ports restarted_twice) + length (servers restarted_twice) = 999
   \<and> check_processes_sweep example_env (\<lambda>pid. Some 0) restarted_twice = Some (Inr reaped)
   \<and> length (free_ports reaped) = 999 \<and> servers reaped = []
   \<and> 23000 \<notin> set (free_ports reaped)"
proof -
  have 0: "length (free_ports ProxyManager_init) + length (servers ProxyManager_init) = 1000"
    by (simp add: ProxyManager_init_def MIN_SPECIFIC_SERVER_PORT_def MAX_SPECIFIC_SERVER_PORT_def
        del: upt_rec_numeral)
  have f0: "free_ports ProxyManager_init = 23000 # [23001 ..< 24000]"
    by (simp add: ProxyManager_init_def MIN_SPECIFIC_SERVER_PORT_def MAX_SPECIFIC_SERVER_PORT_def
        pool_head(1) del: upt_rec_numeral)
  have 1: "start_specific_server example_env ProxyManager_init ''a'' ''cfg'' =
             Some (Inr True, restarted_once)"
    unfolding start_specific_server_example_env[OF f0]
    by (simp add: restarted_once_def ProxyManager_init_def del: upt_rec_numeral)
  have f1: "free_ports restarted_once = 23001 # [23002 ..< 24000]"
    by (simp add: restarted_once_def pool_head(2) del: upt_rec_numeral)
  have 2: "start_specific_server example_env restarted_once ''a'' ''cfg'' =
             Some (Inr True, restarted_twice)"
    unfolding start_specific_server_example_env[OF f1]
    by (simp add: restarted_once_def restarted_twice_def del: upt_rec_numeral)
  have 3: "length (free_ports restarted_twice) + length (servers restarted_twice) = 999"
    by (simp add: restarted_twice_def del: upt_rec_numeral)
  have 4: "check_processes_sweep example_env (\<lambda>pid. Some 0) restarted_twice = Some (Inr reaped)"
    by (simp add: check_processes_sweep_def restarted_twice_def reaped_def process_handle_def
        Future_result_def del: upt_rec_numeral)
  have 5: "length (free_ports reaped) = 999" "servers reaped = []"
    "23000 \<notin> set (free_ports reaped)"
    by (simp_all add: reaped_def del: upt_rec_numeral)
  from 0 1 2 3 4 5 show ?thesis by blast
qed

subsection \<open>The reaper\<close>

lemma dict_del_middle:
  assumes "distinct (map fst (pre @ (c, s) # items))"
  shows "AList.delete c (pre @ (c, s) # items) = pre @ items"
proof -
  from assms have "c \<notin> fst ` set pre" and "c \<notin> fst ` set items" by auto
  then have "AList.delete c pre = pre" and "AList.delete c items = items" by simp_all
  then show ?thesis by (simp add: AList.delete_eq)
qed

lemma check_processes_loop_all:
  assumes "distinct (map fst (pre @ items))"
  shows "check_processes_loop env poll_now items \<lparr>servers = pre @ items, free_ports = fp\<rparr> =
           (if \<exists>(c, s)\<in>set items. process_handle_future s = Unresolved then None
            else Some (Inr \<lparr>servers = pre @ filter (\<lambda>(c, s). \<not> child_exited poll_now s) items,
                            free_ports = fp @ map (port \<circ> snd)
                                               (filter (\<lambda>(c, s). child_exited poll_now s) items)\<rparr>))"
  using assms
proof (induction items arbitrary: pre fp)
  case Nil
  then show ?case by simp
next
  case (Cons item items)
  obtain c s where item: "item = (c, s)" by (cases item)
  show ?case
  proof (cases "process_handle_future s")
    case Unresolved
    then show ?thesis
      by (simp add: item process_handle_def Future_result_def)
  next
    case (Resolved pid)
    show ?thesis
    proof (cases "poll_now pid")
      case None
      from Cons.prems have d: "distinct (map fst ((pre @ [(c, s)]) @ items))"
        by (simp add: item)
      from Resolved None have ex: "\<not> child_exited poll_now s"
        by (simp add: child_exited_def)
      from Cons.IH[OF d, of fp] Resolved None ex show ?thesis
        by (simp add: item process_handle_def Future_result_def)
    next
      case (Some status)
      from Cons.prems have d: "distinct (map fst (pre @ items))"
        by (simp add: item)
      from Cons.prems have del: "AList.delete c (pre @ (c, s) # items) = pre @ items"
        by (simp only: item dict_del_middle)
      from Resolved Some have ex: "child_exited poll_now s"
        by (simp add: child_exited_def)
      from Cons.IH[OF d, of "fp @ [port s]"] Resolved Some del ex show ?thesis
        by (simp add: item process_handle_def Future_result_def)
    qed
  qed
qed

text \<open>
  What a sweep does, for every manager: it reads the process handle of every record of
  the snapshot with \<^verbatim>\<open>process_handle()\<close>. If the future of some record is unresolved
  the sweep does not finish. Otherwise it polls every child, removes exactly the records
  whose child has exited, appends their ports to the free list in the order of the
  records, and leaves the other records as they are.
\<close>

lemma reaper_sweep_blocks_or_reaps_exited:
  assumes "distinct (map fst (servers m))"
  shows "check_processes_sweep env poll_now m =
           (if \<exists>(c, s)\<in>set (servers m). process_handle_future s = Unresolved then None
            else Some (Inr \<lparr>servers = filter (\<lambda>(c, s). \<not> child_exited poll_now s) (servers m),
                            free_ports = free_ports m @ map (port \<circ> snd)
                                           (filter (\<lambda>(c, s). child_exited poll_now s) (servers m))\<rparr>))"
proof (cases m)
  case (fields ss fp)
  with assms have d: "distinct (map fst ([] @ ss))" by simp
  from check_processes_loop_all[OF d, of env poll_now fp] show ?thesis
    by (simp add: check_processes_sweep_def fields)
qed

lemma reaper_sweep_blocks_or_reaps_exited_example:
  "distinct (map fst (servers two_resolved))
   \<and> check_processes_sweep example_env (\<lambda>pid. if pid = 1 then Some 0 else None) two_resolved =
       Some (Inr \<lparr>servers = [(''c'', \<lparr>port = 23002, process_handle_future = Resolved 3,
                                        channel = insecure_channel 23002\<rparr>)],
                  free_ports = [23003, 23000]\<rparr>)
   \<and> distinct (map fst (servers mixed_manager))
   \<and> check_processes_sweep example_env (\<lambda>pid. if pid = 1 then Some 0 else None) mixed_manager = None"
proof -
  have d1: "distinct (map fst (servers two_resolved))" by (simp add: two_resolved_def)
  have d2: "distinct (map fst (servers mixed_manager))" by (simp add: mixed_manager_def)
  from reaper_sweep_blocks_or_reaps_exited
         [OF d1, of example_env "\<lambda>pid. if pid = 1 then Some 0 else None"]
  have 1: "check_processes_sweep example_env (\<lambda>pid. if pid = 1 then Some 0 else None) two_resolved =
       Some (Inr \<lparr>servers = [(''c'', \<lparr>port = 23002, process_handle_future = Resolved 3,
                                        channel = insecure_channel 23002\<rparr>)],
                  free_ports = [23003, 23000]\<rparr>)"
    by (simp add: two_resolved_def child_exited_def)
  from reaper_sweep_blocks_or_reaps_exited
         [OF d2, of example_env "\<lambda>pid. if pid = 1 then Some 0 else None"]
  have 2: "check_processes_sweep example_env (\<lambda>pid. if pid = 1 then Some 0 else None) mixed_manager = None"
    by (simp add: mixed_manager_def)
  from d1 1 d2 2 show ?thesis by blast
qed

text \<open>
  C5. The claim is that a sweep polls only the records whose process future has resolved
  and never blocks on an unresolved one. On a manager whose only record has an
  unresolved process future the sweep does not return: \<^verbatim>\<open>process_handle()\<close> is
  \<^verbatim>\<open>result()\<close> without a timeout. With three records of which the second is
  unresolved the sweep does not return either, although the children of the other two
  have exited. The exit hook, on the first of these managers, waits for the future with
  a bound of 0.1 s and returns; on Python 3.11 it passes over the record.
\<close>

theorem reaper_blocks_on_unresolved_future:
  "check_processes_sweep example_env (\<lambda>pid. Some 0) pending_manager = None
   \<and> check_processes_sweep example_env (\<lambda>pid. Some 0) mixed_manager = None
   \<and> check_processes_sweep example_env_py311 (\<lambda>pid. Some 0) pending_manager = None
   \<and> cleanup example_env_py311 pending_manager = Some (None, [])"
  by (simp add: check_processes_sweep_def pending_manager_def mixed_manager_def
      process_handle_def Future_result_def cleanup_def wait_ready_def futures_TimeoutError_def
      example_env_py311_def example_env_def)

subsection \<open>The exit hook\<close>

lemma resolved_pids_Cons:
  "resolved_pids (s # ss) =
     (case process_handle_future s of Resolved pid \<Rightarrow> pid # resolved_pids ss
                                    | Unresolved \<Rightarrow> resolved_pids ss)"
  by (simp add: resolved_pids_def List.map_filter_simps split: future.splits)

text \<open>
  Where \<^verbatim>\<open>concurrent.futures.TimeoutError\<close> is the builtin \<^verbatim>\<open>TimeoutError\<close> (Python 3.11
  and later), the hook kills every child whose future is resolved, passes over the
  others, and lets no exception out.
\<close>

lemma cleanup_loop_py311:
  assumes "11 \<le> python_minor env"
  shows "cleanup_loop env ss killed = Some (None, killed @ resolved_pids ss)"
proof (induction ss arbitrary: killed)
  case Nil
  then show ?case by (simp add: resolved_pids_def List.map_filter_simps)
next
  case (Cons s ss)
  from assms show ?case
    by (cases "process_handle_future s")
       (simp_all add: Cons.IH resolved_pids_Cons wait_ready_def process_handle_def
          Future_result_def futures_TimeoutError_def)
qed

text \<open>
  Where it is a class of its own (before Python 3.11), the timeout raised for the first
  record with an unresolved future is not caught by \<^verbatim>\<open>except TimeoutError\<close>: it leaves
  the hook, and the children of the later records are not killed.
\<close>

lemma cleanup_loop_before_py311:
  assumes "python_minor env < 11"
  shows "cleanup_loop env ss killed =
           (if \<forall>s\<in>set ss. process_handle_future s \<noteq> Unresolved
            then Some (None, killed @ resolved_pids ss)
            else Some (Some FuturesTimeoutError,
                       killed @ resolved_pids
                                  (takeWhile (\<lambda>s. process_handle_future s \<noteq> Unresolved) ss)))"
proof (induction ss arbitrary: killed)
  case Nil
  then show ?case by (simp add: resolved_pids_def List.map_filter_simps)
next
  case (Cons s ss)
  from assms show ?case
    by (cases "process_handle_future s")
       (simp_all add: Cons.IH resolved_pids_Cons wait_ready_def process_handle_def
          Future_result_def futures_TimeoutError_def resolved_pids_def List.map_filter_simps)
qed

text \<open>
  C9. The claim is that the hook kills every child whose handle is resolved, swallows the
  timeout of every unresolved future, and never lets an error out. On Python 3.8, with
  the records \<^verbatim>\<open>a\<close> (resolved, pid 1), \<^verbatim>\<open>b\<close> (unresolved) and \<^verbatim>\<open>c\<close> (resolved, pid 3),
  the hook kills child 1, and the \<^verbatim>\<open>concurrent.futures.TimeoutError\<close> raised by
  \<^verbatim>\<open>wait_ready(0.1)\<close> for \<^verbatim>\<open>b\<close> leaves the hook; child 3 is never killed. On Python 3.11
  the same call kills children 1 and 3 and lets no exception out.
\<close>

theorem cleanup_lets_futures_timeout_out:
  "cleanup example_env mixed_manager = Some (Some FuturesTimeoutError, [1])
   \<and> python_minor example_env = 8
   \<and> cleanup example_env_py311 mixed_manager = Some (None, [1, 3])"
  by (simp add: cleanup_def mixed_manager_def example_env_def example_env_py311_def wait_ready_def
      process_handle_def Future_result_def futures_TimeoutError_def)

subsection \<open>The handshake rewrite\<close>

lemma ray_client_server_env_prep_id: "ray_client_server_env_prep cfg = cfg"
  by (simp add: ray_client_server_env_prep_def)

text \<open>
  C6. Let the first message of the stream be \<open>m0\<close>, of variant \<^verbatim>\<open>init\<close>, with encoded
  \<^verbatim>\<open>job_config\<close> \<open>C\<close>, and let \<open>cfg\<close> be the decoding of \<open>C\<close>: \<open>loads C\<close> when \<open>C\<close> is not
  empty, the default \<^verbatim>\<open>JobConfig()\<close> when it is. Then \<^verbatim>\<open>prepare_runtime_init_req\<close> returns
  \<open>m0\<close> with the \<^verbatim>\<open>job_config\<close> of its \<^verbatim>\<open>init\<close> set to \<open>dumps (env_prep cfg)\<close> and every
  other field of \<open>m0\<close> as it was, together with \<open>env_prep cfg\<close> and the rest of the
  iterator.
\<close>

theorem handshake_rewrite:
  assumes "oneof_type m0 = init req" and "job_config req = C"
    and "C \<noteq> [] \<longrightarrow> loads env C = Inr cfg"
    and "C = [] \<longrightarrow> cfg = JobConfig env"
  shows "prepare_runtime_init_req env (Inr m0 # rest) =
           Inr ((m0\<lparr>oneof_type := init \<lparr>job_config = dumps env (ray_client_server_env_prep cfg)\<rparr>\<rparr>,
                 ray_client_server_env_prep cfg), rest)
         \<and> DataRequest.more
              (m0\<lparr>oneof_type := init \<lparr>job_config = dumps env (ray_client_server_env_prep cfg)\<rparr>\<rparr>)
            = DataRequest.more m0"
  using assms by (cases "C = []") (simp_all add: prepare_runtime_init_req_def Let_def)

theorem handshake_rewrite_witness:
  "oneof_type init_message = init \<lparr>job_config = ''''\<rparr>
   \<and> prepare_runtime_init_req example_env [Inr init_message, Inr other_message] =
       Inr ((\<lparr>oneof_type = init \<lparr>job_config = ''default''\<rparr>\<rparr>, ''default''), [Inr other_message])
   \<and> prepare_runtime_init_req example_env
         [Inr (\<lparr>oneof_type = init \<lparr>job_config = ''pickled''\<rparr>, req_id = 7\<rparr>
                 :: unit NumberedDataRequest)] =
       Inr ((\<lparr>oneof_type = init \<lparr>job_config = ''pickled''\<rparr>, req_id = 7\<rparr>, ''pickled''), [])"
proof -
  have a: "oneof_type init_message = init \<lparr>job_config = ''''\<rparr>"
    by (simp add: init_message_def)
  have b: "'''' \<noteq> [] \<longrightarrow> loads example_env '''' = Inr ''default''"
    "'''' = [] \<longrightarrow> ''default'' = JobConfig example_env"
    "''pickled'' \<noteq> [] \<longrightarrow> loads example_env ''pickled'' = Inr ''pickled''"
    "''pickled'' = [] \<longrightarrow> ''pickled'' = JobConfig example_env"
    by (simp_all add: example_env_def)
  have d: "dumps example_env = id" by (simp add: example_env_def)
  from handshake_rewrite
         [where ?m0.0 = init_message and req = "\<lparr>job_config = ''''\<rparr>" and C = "''''"
            and env = example_env and cfg = "''default''" and rest = "[Inr other_message]"] a b(1,2)
  have 1: "prepare_runtime_init_req example_env [Inr init_message, Inr other_message] =
       Inr ((\<lparr>oneof_type = init \<lparr>job_config = ''default''\<rparr>\<rparr>, ''default''), [Inr other_message])"
    by (simp add: init_message_def d ray_client_server_env_prep_def)
  from handshake_rewrite
         [where ?m0.0 = "\<lparr>oneof_type = init \<lparr>job_config = ''pickled''\<rparr>, req_id = 7\<rparr>
                           :: unit NumberedDataRequest"
            and req = "\<lparr>job_config = ''pickled''\<rparr>" and C = "''pickled''"
            and env = example_env and cfg = "''pickled''" and rest = "[]"] b(3,4)
  have 2: "prepare_runtime_init_req example_env
         [Inr (\<lparr>oneof_type = init \<lparr>job_config = ''pickled''\<rparr>, req_id = 7\<rparr>
                 :: unit NumberedDataRequest)] =
       Inr ((\<lparr>oneof_type = init \<lparr>job_config = ''pickled''\<rparr>, req_id = 7\<rparr>, ''pickled''), [])"
    by (simp add: d ray_client_server_env_prep_def)
  from a 1 2 show ?thesis by blast
qed

subsection \<open>The splice queue\<close>

lemma forward_streaming_requests_eq:
  "forward_streaming_requests p q = q @ map Some (received p) @ [None]"
  by (induction p q rule: forward_streaming_requests.induct) simp_all

lemma received_map_Inr: "received (map Inr ms) = ms"
  by (induction ms) simp_all

lemma iter_until_sentinel_Cons:
  "iter_until_sentinel (Some x # q) = x # iter_until_sentinel q"
  "iter_until_sentinel (None # q) = []"
  by (simp_all add: iter_until_sentinel_def)

lemma iter_until_sentinel_append:
  assumes "None \<notin> set q"
  shows "iter_until_sentinel (q @ None # q') = map the q"
proof -
  from assms have "\<And>x. x \<in> set q \<Longrightarrow> x \<noteq> None" by metis
  then have "takeWhile (\<lambda>x. x \<noteq> None) (q @ None # q') = q @ takeWhile (\<lambda>x. x \<noteq> None) (None # q')"
    by (rule takeWhile_append2)
  then show ?thesis by (simp add: iter_until_sentinel_def)
qed

lemma iter_forward:
  assumes "None \<notin> set q"
  shows "iter_until_sentinel (forward_streaming_requests p q) = map the q @ received p"
proof -
  have "None \<notin> set (q @ map Some (received p))" using assms by auto
  from iter_until_sentinel_append[OF this, of "[]"] show ?thesis
    by (simp add: forward_streaming_requests_eq comp_def)
qed

lemma splice_step_inv:
  assumes "splice_step s s'" and "splice_inv full s"
  shows "splice_inv full s'"
  using assms
proof (cases rule: splice_step.cases)
  case (put req rest q d r)
  with assms(2) show ?thesis by (auto split: if_splits)
next
  case (exhausted q d r)
  with assms(2) show ?thesis by (auto split: if_splits)
next
  case (broken e rest q d r)
  with assms(2) show ?thesis by (auto split: if_splits)
next
  case (get p req q d f)
  with assms(2) show ?thesis
    by (cases f) (auto simp add: iter_until_sentinel_Cons iter_forward)
next
  case (stop p q d f)
  with assms(2) show ?thesis
    by (cases f) (simp_all add: iter_until_sentinel_Cons)
qed

lemma splice_run_inv:
  assumes "splice_step\<^sup>*\<^sup>* s s'" and "splice_inv full s"
  shows "splice_inv full s'"
  using assms by (induction rule: rtranclp_induct) (auto intro: splice_step_inv)

text \<open>
  In every state that the forwarder and the backend stream can reach from the queue that
  holds only the first message, what the backend stream has taken is an initial part of
  the first message followed by the messages the iterator gives; and once the backend
  stream has met the sentinel it has taken all of them.
\<close>

lemma splice_delivers_in_order:
  assumes "splice_step\<^sup>*\<^sup>* (Splice rest [Some first] [] False False) s"
  shows "prefix (delivered s) (first # received rest)"
    and "reader_done s \<Longrightarrow> delivered s = first # received rest"
proof -
  have "splice_inv (first # received rest) (Splice rest [Some first] [] False False)"
    by (simp add: iter_forward)
  from splice_run_inv[OF assms this] have inv: "splice_inv (first # received rest) s" .
  obtain p q d f r where s: "s = Splice p q d f r" by (cases s)
  from inv obtain zs where "delivered s @ zs = first # received rest"
    by (auto simp add: s split: if_splits)
  then show "prefix (delivered s) (first # received rest)"
    by (metis prefixI)
  from inv show "reader_done s \<Longrightarrow> delivered s = first # received rest"
    by (auto simp add: s split: if_splits)
qed

text \<open>
  C7. Let the client send \<open>m0, m1, \<dots>\<close> (the list \<open>m0 # ms\<close>) with a non-empty
  \<^verbatim>\<open>client_id\<close>, let \<open>m0\<close> be an \<^verbatim>\<open>init\<close> message that \<^verbatim>\<open>prepare_runtime_init_req\<close> rewrites
  to \<open>m0'\<close>, and let the backend start and its channel become ready. Then \<^verbatim>\<open>Datapath\<close>
  opens the backend's \<^verbatim>\<open>Datapath\<close> stream on that channel with the \<^verbatim>\<open>client_id\<close> metadata
  and feeds it \<open>m0', m1, \<dots>\<close> in this order. This holds however the forwarder thread and
  the backend stream interleave on the queue: the first message is in the queue before
  the forwarder starts, so at every moment the backend stream has taken an initial part
  of \<open>m0', m1, \<dots>\<close>, and all of it when it has met the sentinel.
\<close>

theorem first_message_precedes_forwarded:
  assumes "map_of (rev (invocation_metadata ctx)) ''client_id'' = Some cid" and "cid \<noteq> ''''"
    and "prepare_runtime_init_req env (Inr m0 # map Inr ms) = Inr ((m0', cfg), map Inr ms)"
    and "start_specific_server env m cid cfg = Some (Inr True, m1)"
    and "get_channel env m1 cid = Some (Inr (Some chan))"
  shows "Datapath env m (Inr m0 # map Inr ms) ctx =
           Some (Inr (StubCall chan ''Datapath'' (m0' # ms) [(''client_id'', cid)]), ctx, m1)
         \<and> (\<forall>s. splice_step\<^sup>*\<^sup>* (Splice (map Inr ms) [Some m0'] [] False False) s \<longrightarrow>
                prefix (delivered s) (m0' # ms) \<and> (reader_done s \<longrightarrow> delivered s = m0' # ms))"
proof
  have c: "get_client_id_from_context ctx = (cid, ctx)"
    using assms(1,2) by (simp add: get_client_id_from_context_def)
  have i: "iter_until_sentinel (forward_streaming_requests (map Inr ms) [Some m0']) = m0' # ms"
    by (simp add: iter_forward received_map_Inr)
  show "Datapath env m (Inr m0 # map Inr ms) ctx =
           Some (Inr (StubCall chan ''Datapath'' (m0' # ms) [(''client_id'', cid)]), ctx, m1)"
    using assms(2) by (simp add: Datapath_def c assms(3,4,5) i)
  show "\<forall>s. splice_step\<^sup>*\<^sup>* (Splice (map Inr ms) [Some m0'] [] False False) s \<longrightarrow>
                prefix (delivered s) (m0' # ms) \<and> (reader_done s \<longrightarrow> delivered s = m0' # ms)"
    using splice_delivers_in_order[of "map Inr ms" m0'] by (simp add: received_map_Inr)
qed

theorem first_message_precedes_forwarded_witness:
  "map_of (rev (invocation_metadata (context_of [(''client_id'', ''a'')]))) ''client_id'' = Some ''a''
   \<and> prepare_runtime_init_req example_env (Inr init_message # map Inr [other_message, unset_message]) =
       Inr ((rewritten_init_message, ''default''), map Inr [other_message, unset_message])
   \<and> start_specific_server example_env empty_manager ''a'' ''default'' = Some (Inr True, started_manager)
   \<and> get_channel example_env started_manager ''a'' = Some (Inr (Some (insecure_channel 23000)))
   \<and> Datapath example_env empty_manager (Inr init_message # map Inr [other_message, unset_message])
         (context_of [(''client_id'', ''a'')]) =
       Some (Inr (StubCall (insecure_channel 23000) ''Datapath''
                    [rewritten_init_message, other_message, unset_message] [(''client_id'', ''a'')]),
             context_of [(''client_id'', ''a'')], started_manager)
   \<and> splice_step\<^sup>*\<^sup>*
         (Splice (map Inr [other_message, unset_message]) [Some rewritten_init_message] [] False False)
         (Splice [Inr unset_message] [] [rewritten_init_message, other_message] False False)
   \<and> prefix [rewritten_init_message, other_message]
             [rewritten_init_message, other_message, unset_message]"
proof -
  have a: "map_of (rev (invocation_metadata (context_of [(''client_id'', ''a'')]))) ''client_id'' = Some ''a''"
    by (simp add: context_of_def)
  have n: "''a'' \<noteq> ''''" by simp
  have p: "prepare_runtime_init_req example_env (Inr init_message # map Inr [other_message, unset_message]) =
       Inr ((rewritten_init_message, ''default''), map Inr [other_message, unset_message])"
    by (simp add: prepare_runtime_init_req_def init_message_def rewritten_init_message_def
        example_env_def ray_client_server_env_prep_def Let_def)
  have f: "free_ports empty_manager = 23000 # [23001, 23002]" by (simp add: empty_manager_def)
  have s: "start_specific_server example_env empty_manager ''a'' ''default'' = Some (Inr True, started_manager)"
    unfolding start_specific_server_example_env[OF f]
    by (simp add: empty_manager_def started_manager_def)
  have g: "get_channel example_env started_manager ''a'' = Some (Inr (Some (insecure_channel 23000)))"
    by (simp add: get_channel_def get_server_for_client_def started_manager_def wait_ready_def
        Future_result_def example_env_def)
  have r1: "splice_step
         (Splice (map Inr [other_message, unset_message]) [Some rewritten_init_message] [] False False)
         (Splice [Inr unset_message] ([Some rewritten_init_message] @ [Some other_message]) [] False False)"
    using splice_step.put[of other_message "[Inr unset_message]" "[Some rewritten_init_message]" "[]" False]
    by simp
  have r2: "splice_step
         (Splice [Inr unset_message] ([Some rewritten_init_message] @ [Some other_message]) [] False False)
         (Splice [Inr unset_message] [Some other_message] ([] @ [rewritten_init_message]) False False)"
    using splice_step.get[of "[Inr unset_message]" rewritten_init_message "[Some other_message]" "[]" False]
    by simp
  have r3: "splice_step
         (Splice [Inr unset_message] [Some other_message] ([] @ [rewritten_init_message]) False False)
         (Splice [Inr unset_message] [] [rewritten_init_message, other_message] False False)"
    using splice_step.get[of "[Inr unset_message]" other_message "[]" "[rewritten_init_message]" False]
    by simp
  from r1 r2 r3 have run: "splice_step\<^sup>*\<^sup>*
         (Splice (map Inr [other_message, unset_message]) [Some rewritten_init_message] [] False False)
         (Splice [Inr unset_message] [] [rewritten_init_message, other_message] False False)"
    by (meson rtranclp.rtrancl_into_rtrancl rtranclp.rtrancl_refl)
  from first_message_precedes_forwarded[OF a n p s g]
  have d: "Datapath example_env empty_manager (Inr init_message # map Inr [other_message, unset_message])
         (context_of [(''client_id'', ''a'')]) =
       Some (Inr (StubCall (insecure_channel 23000) ''Datapath''
                    [rewritten_init_message, other_message, unset_message] [(''client_id'', ''a'')]),
             context_of [(''client_id'', ''a'')], started_manager)"
    and o: "\<forall>s. splice_step\<^sup>*\<^sup>*
               (Splice (map Inr [other_message, unset_message]) [Some rewritten_init_message] [] False False) s
             \<longrightarrow> prefix (delivered s) [rewritten_init_message, other_message, unset_message]
                 \<and> (reader_done s \<longrightarrow>
                      delivered s = [rewritten_init_message, other_message, unset_message])"
    by blast+
  from o run have "prefix (delivered (Splice [Inr unset_message] [] [rewritten_init_message, other_message] False False))
                      [rewritten_init_message, other_message, unset_message]"
    by blast
  then have x: "prefix [rewritten_init_message, other_message]
             [rewritten_init_message, other_message, unset_message]"
    by simp
  from a p s g d run x show ?thesis by blast
qed

subsection \<open>Port conservation where no record is replaced\<close>

text \<open>
  A sweep that finishes keeps the number of free ports plus the number of records; with
  \<open>start_specific_server_new_id_conserves\<close>, the sum changes only when a record is
  replaced.
\<close>

lemma check_processes_sweep_conserves:
  assumes "distinct (map fst (servers m))"
    and "check_processes_sweep env poll_now m = Some (Inr m')"
  shows "length (free_ports m') + length (servers m') = length (free_ports m) + length (servers m)"
proof (cases m)
  case (fields ss fp)
  with assms(1) have d: "distinct (map fst ([] @ ss))" by simp
  from check_processes_loop_all[OF d, of env poll_now fp] assms(2)
  have m': "m' = \<lparr>servers = filter (\<lambda>(c, s). \<not> child_exited poll_now s) ss,
                   free_ports = fp @ map (port \<circ> snd)
                                      (filter (\<lambda>(c, s). child_exited poll_now s) ss)\<rparr>"
    by (simp add: check_processes_sweep_def fields split: if_splits)
  have "length (filter (\<lambda>(c, s). child_exited poll_now s) ss)
          + length (filter (\<lambda>(c, s). \<not> child_exited poll_now s) ss) = length ss"
    using sum_length_filter_compl[of "\<lambda>(c, s). child_exited poll_now s" ss]
    by (simp add: case_prod_unfold)
  then show ?thesis by (simp add: m' fields)
qed

subsection \<open>An exhausted request iterator\<close>

text \<open>
  When the client sends no message at all, \<^verbatim>\<open>next\<close> raises \<^verbatim>\<open>StopIteration\<close> inside
  \<^verbatim>\<open>prepare_runtime_init_req\<close>, and the generator \<^verbatim>\<open>Datapath\<close> ends with a \<^verbatim>\<open>RuntimeError\<close>;
  no backend is started.
\<close>

lemma Datapath_exhausted_iterator:
  assumes "map_of (rev (invocation_metadata ctx)) ''client_id'' = Some cid" and "cid \<noteq> ''''"
  shows "prepare_runtime_init_req env [] = Inl StopIteration"
    and "Datapath env m [] ctx = Some (Inl (RuntimeError ''generator raised StopIteration''), ctx, m)"
  using assms
  by (simp_all add: prepare_runtime_init_req_def Datapath_def get_client_id_from_context_def
      generator_exit_def)

end
